theory Spec2Isabelle
  imports Main
begin

section \<open>JavaScript values and built-ins\<close>

text \<open>
  A \<^verbatim>\<open>BigNumberish\<close> of starknet.js is a string, a number or a bigint. The constructor
  records which of the three the program holds: \<^verbatim>\<open>"0x1"\<close>, \<^verbatim>\<open>1\<close> and \<^verbatim>\<open>1n\<close> are
  three different values for \<^verbatim>\<open>==\<close> on strings and for the functions that receive them.
\<close>

datatype BigNumberish = Str string | Num int | BigInt int

text \<open>A thrown \<^verbatim>\<open>Error(message)\<close>.\<close>

datatype error = Error string

text \<open>
  An \<^verbatim>\<open>async\<close> method that talks to a collaborator is a function of the collaborators'
  state \<open>'w\<close>: it returns the value or the thrown error, and the state it leaves.
\<close>

type_synonym ('a, 'w) promise = "'w \<Rightarrow> (error + 'a) \<times> 'w"

text \<open>\<^verbatim>\<open>xs.map(f)\<close> where \<^verbatim>\<open>f\<close> may throw: the first throw ends the whole map.\<close>

fun map_err :: "('a \<Rightarrow> error + 'b) \<Rightarrow> 'a list \<Rightarrow> error + 'b list" where
  "map_err f [] = Inr []"
| "map_err f (x # xs) =
     (case f x of
        Inl e \<Rightarrow> Inl e
      | Inr y \<Rightarrow> (case map_err f xs of Inl e \<Rightarrow> Inl e | Inr ys \<Rightarrow> Inr (y # ys)))"

text \<open>\<^verbatim>\<open>xs.findIndex(p)\<close>: the index of the first element that satisfies \<^verbatim>\<open>p\<close>, or -1.\<close>

fun findIndex_from :: "('a \<Rightarrow> bool) \<Rightarrow> 'a list \<Rightarrow> int \<Rightarrow> int" where
  "findIndex_from p [] i = - 1"
| "findIndex_from p (x # xs) i = (if p x then i else findIndex_from p xs (i + 1))"

definition findIndex :: "('a \<Rightarrow> bool) \<Rightarrow> 'a list \<Rightarrow> int" where
  "findIndex p xs = findIndex_from p xs 0"

text \<open>\<^verbatim>\<open>xs[i]\<close>: \<^verbatim>\<open>undefined\<close> (here \<open>None\<close>) outside \<^verbatim>\<open>0 .. xs.length - 1\<close>.\<close>

definition element_at :: "'a list \<Rightarrow> int \<Rightarrow> 'a option" where
  "element_at xs i = (if 0 \<le> i \<and> i < int (length xs) then Some (xs ! nat i) else None)"

text \<open>\<^verbatim>\<open>xs.includes(x)\<close>.\<close>

definition includes_elem :: "'a list \<Rightarrow> 'a \<Rightarrow> bool" where
  "includes_elem xs x = (x \<in> set xs)"

text \<open>\<^verbatim>\<open>+b\<close> on a boolean.\<close>

definition unary_plus :: "bool \<Rightarrow> int" where
  "unary_plus b = (if b then 1 else 0)"

section \<open>The data of a session\<close>

record Call =
  contractAddress :: string
  entrypoint :: string
  calldata :: "BigNumberish list"

record AllowedMethod =
  Contract_Address :: string
  selector :: string

record OffChainSession =
  expires_at :: int
  allowed_methods :: "AllowedMethod list"
  metadata :: string
  session_key_guid :: string

record OnChainSession =
  expires_at :: int
  allowed_methods_root :: string
  metadata_hash :: string
  session_key_guid :: string

record DappKey =
  privateKey :: string
  publicKey :: string

record BackendSignatureResponse =
  publicKey :: string
  r :: int
  s :: int

datatype SignerType = Starknet | Secp256k1 | Secp256r1 | Eip191 | Webauthn

text \<open>The object \<^verbatim>\<open>{ pubkey, r: signature[0], s: signature[1] }\<close>; an index read may be undefined.\<close>

record StarknetSignature =
  pubkey :: string
  r :: "int option"
  s :: "int option"

text \<open>
  Modelled from the spec: \<^verbatim>\<open>signerTypeToCustomEnum\<close> of \<^verbatim>\<open>./signerTypeToCustomEnum\<close> is not
  among the sources. The spec has each signature "tagged with a signer-type enum so the on-chain
  verifier can dispatch on signature scheme": the value is the pair of the tag and the signature.
\<close>

type_synonym CairoCustomEnum = "SignerType \<times> StarknetSignature"

definition signerTypeToCustomEnum :: "SignerType \<Rightarrow> StarknetSignature \<Rightarrow> CairoCustomEnum" where
  "signerTypeToCustomEnum signerType val = (signerType, val)"

text \<open>
  Modelled from the spec: \<^verbatim>\<open>getSessionTypedData\<close> of \<^verbatim>\<open>./utils\<close> is not among the sources.
  The spec has it produce "a domain-separated, chain-bound structured-data document representing
  the session": the document holds the chain id of its domain and the session as its message.
\<close>

record TypedData =
  domain_chainId :: string
  message :: OffChainSession

definition getSessionTypedData :: "OffChainSession \<Rightarrow> string \<Rightarrow> TypedData" where
  "getSessionTypedData sessionRequest chain =
     \<lparr>domain_chainId = chain, message = sessionRequest\<rparr>"

record SessionToken =
  session :: OnChainSession
  cache_authorization :: bool
  session_authorization :: "string list"
  sessionSignature :: CairoCustomEnum
  guardianSignature :: CairoCustomEnum
  proofs :: "string list list"

section \<open>Signer details and the transaction hash\<close>

datatype EDataAvailabilityMode = L1 | L2

record ResourceBoundsEntry =
  max_amount :: string
  max_price_per_unit :: string

record ResourceBounds =
  l1_gas :: ResourceBoundsEntry
  l2_gas :: ResourceBoundsEntry

text \<open>
  The object a signer receives. \<^verbatim>\<open>InvocationsSignerDetails\<close> is the union of the V2 and the V3
  shape; a field that one shape lacks is undefined (\<open>None\<close>) in an object of that shape. The
  version is the string the object carries: the code tests it at run time.
\<close>

record InvocationsSignerDetails =
  walletAddress :: string
  cairoVersion :: string
  chainId :: string
  nonce :: BigNumberish
  version :: string
  maxFee :: "BigNumberish option"
  resourceBounds :: "ResourceBounds option"
  tip :: "BigNumberish option"
  paymasterData :: "BigNumberish list option"
  accountDeploymentData :: "BigNumberish list option"
  nonceDataAvailabilityMode :: "EDataAvailabilityMode option"
  feeDataAvailabilityMode :: "EDataAvailabilityMode option"

text \<open>
  The values of the starknet.js enums \<^verbatim>\<open>RPC.ETransactionVersion2\<close> (V0, V1, V2 and their
  query-only forms F0, F1, F2, which add \<open>2^128\<close>) and \<^verbatim>\<open>RPC.ETransactionVersion3\<close> (V3, F3), in
  the order \<^verbatim>\<open>Object.values\<close> lists them.
\<close>

definition ETransactionVersion2 :: "string list" where
  "ETransactionVersion2 =
     [''0x0'', ''0x1'', ''0x2'',
      ''0x100000000000000000000000000000000'',
      ''0x100000000000000000000000000000001'',
      ''0x100000000000000000000000000000002'']"

definition ETransactionVersion3 :: "string list" where
  "ETransactionVersion3 = [''0x3'', ''0x100000000000000000000000000000003'']"

text \<open>
  \<^verbatim>\<open>stark.intDAM\<close>: the integer code of a data-availability mode (\<^verbatim>\<open>EDAMode.L1 = 0\<close>,
  \<^verbatim>\<open>EDAMode.L2 = 1\<close>); any other argument, an undefined one included, throws.
\<close>

fun intDAM :: "EDataAvailabilityMode option \<Rightarrow> error + int" where
  "intDAM (Some L1) = Inr 0"
| "intDAM (Some L2) = Inr 1"
| "intDAM None = Inl (Error ''EDAM conversion'')"

text \<open>
  A data-availability field of the object given to \<^verbatim>\<open>hash.calculateInvokeTransactionHash\<close>: the
  enum as the details carry it (the spread \<^verbatim>\<open>...details\<close>), or the integer code that overwrites it.
\<close>

datatype DAMode = Mode EDataAvailabilityMode | Code int

record CalcInvokeTxHashArgs =
  senderAddress :: string
  version :: string
  compiledCalldata :: "string list"
  chainId :: string
  nonce :: BigNumberish
  maxFee :: "BigNumberish option"
  resourceBounds :: "ResourceBounds option"
  tip :: "BigNumberish option"
  paymasterData :: "BigNumberish list option"
  accountDeploymentData :: "BigNumberish list option"
  nonceDataAvailabilityMode :: "DAMode option"
  feeDataAvailabilityMode :: "DAMode option"

section \<open>What the files import\<close>

record ByteArray =
  data :: "BigNumberish list"
  pending_word :: BigNumberish
  pending_word_len :: int

record MerkleTree =
  leaves :: "string list"
  branches :: "string list list"
  root :: string

text \<open>
  The argument of \<^verbatim>\<open>CallData.compile\<close>: the session token of the service, or the flat object
  \<^verbatim>\<open>{ signer, token1, ..., token6 }\<close> of the session accounts, as the list of its keys and
  values in the order they are written; a value read from an array may be undefined.
\<close>

datatype RawArgs = TokenArgs SessionToken | ObjectArgs "(string \<times> string option) list"

datatype Signature = ArraySignature "string list" | WeierstrassSignature int int

text \<open>The argument of \<^verbatim>\<open>execute\<close>: \<^verbatim>\<open>Call | Call[]\<close>.\<close>

datatype CallOrCalls = OneCall Call | ManyCalls "Call list"

text \<open>
  What the three files import and do not define is a parameter of the model, and every theorem
  below holds for any value of it: the functions of starknet.js they call, JavaScript's
  \<^verbatim>\<open>toString\<close> on a number, and two names of modules that are not among the sources,
  \<^verbatim>\<open>ALLOWED_METHOD_HASH\<close> of \<^verbatim>\<open>./utils\<close> and \<^verbatim>\<open>ensureArray\<close> of \<^verbatim>\<open>./ensureArray\<close>.

  The hashes, the curve signature and the encoders are functions of their arguments.
  \<^verbatim>\<open>MerkleTree.getProof\<close> receives the leaf as the code reads it, undefined or not, and may
  throw; so may \<^verbatim>\<open>CallData.compile\<close> and \<^verbatim>\<open>stark.formatSignature\<close>. The constructor
  \<^verbatim>\<open>new merkle.MerkleTree(leaves, hashMethod)\<close> is \<^verbatim>\<open>new_MerkleTree\<close>, \<^verbatim>\<open>ec.starkCurve.sign\<close> is
  \<^verbatim>\<open>starkCurve_sign\<close> and returns the pair of \<^verbatim>\<open>r\<close> and \<^verbatim>\<open>s\<close>. The two invoke-hash formulas are the
  ones \<^verbatim>\<open>hash.calculateInvokeTransactionHash\<close> chooses between.
\<close>

record library =
  encodeShortString :: "string \<Rightarrow> string"
  getExecuteCalldata :: "Call list \<Rightarrow> string \<Rightarrow> string list"
  v2calculateInvokeTransactionHash ::
    "string \<Rightarrow> string \<Rightarrow> string list \<Rightarrow> BigNumberish option \<Rightarrow> string \<Rightarrow> BigNumberish \<Rightarrow> string"
  v3calculateInvokeTransactionHash ::
    "string \<Rightarrow> string \<Rightarrow> string list \<Rightarrow> string \<Rightarrow> BigNumberish \<Rightarrow> BigNumberish list option
      \<Rightarrow> DAMode option \<Rightarrow> DAMode option \<Rightarrow> ResourceBounds option \<Rightarrow> BigNumberish option
      \<Rightarrow> BigNumberish list option \<Rightarrow> string"
  getMessageHash :: "TypedData \<Rightarrow> string \<Rightarrow> string"
  computePoseidonHashOnElements :: "BigNumberish list \<Rightarrow> string"
  computePoseidonHash :: "BigNumberish \<Rightarrow> BigNumberish \<Rightarrow> string"
  starkCurve_sign :: "string \<Rightarrow> string \<Rightarrow> int \<times> int"
  getSelectorFromName :: "string \<Rightarrow> string"
  new_MerkleTree :: "string list \<Rightarrow> (BigNumberish \<Rightarrow> BigNumberish \<Rightarrow> string) \<Rightarrow> MerkleTree"
  getProof :: "MerkleTree \<Rightarrow> string option \<Rightarrow> string list \<Rightarrow> error + string list"
  byteArrayFromString :: "string \<Rightarrow> ByteArray"
  CallData_compile :: "RawArgs \<Rightarrow> error + string list"
  formatSignature :: "Signature \<Rightarrow> error + string list"
  toHex :: "BigNumberish \<Rightarrow> string"
  toString :: "BigNumberish \<Rightarrow> string"
  ensureArray :: "CallOrCalls \<Rightarrow> Call list"
  ALLOWED_METHOD_HASH :: string

text \<open>
  \<^verbatim>\<open>hash.calculateInvokeTransactionHash(args)\<close> of starknet.js: the V3 formula when
  \<^verbatim>\<open>args.version\<close> is V3 or F3 (\<^verbatim>\<open>isV3InvokeTx\<close>), the V2 formula otherwise, each on the fields
  it reads.
\<close>

definition isV3InvokeTx :: "CalcInvokeTxHashArgs \<Rightarrow> bool" where
  "isV3InvokeTx args =
     includes_elem [''0x3'', ''0x100000000000000000000000000000003'']
       (CalcInvokeTxHashArgs.version args)"

definition calculateInvokeTransactionHash :: "library \<Rightarrow> CalcInvokeTxHashArgs \<Rightarrow> string" where
  "calculateInvokeTransactionHash lib args =
     (if isV3InvokeTx args then
        v3calculateInvokeTransactionHash lib
          (senderAddress args) (CalcInvokeTxHashArgs.version args) (compiledCalldata args)
          (CalcInvokeTxHashArgs.chainId args) (CalcInvokeTxHashArgs.nonce args)
          (CalcInvokeTxHashArgs.accountDeploymentData args)
          (CalcInvokeTxHashArgs.nonceDataAvailabilityMode args)
          (CalcInvokeTxHashArgs.feeDataAvailabilityMode args)
          (CalcInvokeTxHashArgs.resourceBounds args) (CalcInvokeTxHashArgs.tip args)
          (CalcInvokeTxHashArgs.paymasterData args)
      else
        v2calculateInvokeTransactionHash lib
          (senderAddress args) (CalcInvokeTxHashArgs.version args) (compiledCalldata args)
          (CalcInvokeTxHashArgs.maxFee args) (CalcInvokeTxHashArgs.chainId args)
          (CalcInvokeTxHashArgs.nonce args))"

text \<open>
  The backend collaborator: its method \<^verbatim>\<open>signTxAndSession(calls, invocationSignerDetails,
  sessionTypedData, sessionSignature, cacheAuthorisation)\<close>, which answers with a signature or
  fails, and may change the collaborator's state.
\<close>

type_synonym BackendRequest =
  "Call list \<times> InvocationsSignerDetails \<times> TypedData \<times> int list \<times> bool"

type_synonym 'w ArgentBackendService =
  "BackendRequest \<Rightarrow> (BackendSignatureResponse, 'w) promise"

record 'w DappService =
  argentBackend :: "'w ArgentBackendService"
  chainId :: string
  dappKey :: DappKey

section \<open>\<^verbatim>\<open>sessionDappService.ts\<close>\<close>

definition SESSION_MAGIC :: "library \<Rightarrow> string" where
  "SESSION_MAGIC lib = encodeShortString lib ''session-token''"

subsection \<open>\<^verbatim>\<open>SessionSigner\<close>\<close>

record 'w SessionSigner =
  signTransactionCallback :: "Call list \<Rightarrow> InvocationsSignerDetails \<Rightarrow> (string list, 'w) promise"

definition signRaw :: "'w SessionSigner \<Rightarrow> string \<Rightarrow> (string list, 'w) promise" where
  "signRaw this msg w = (Inl (Error ''Method not implemented.''), w)"

definition SessionSigner_signTransaction ::
  "'w SessionSigner \<Rightarrow> Call list \<Rightarrow> InvocationsSignerDetails \<Rightarrow> (string list, 'w) promise" where
  "SessionSigner_signTransaction this calls invocationSignerDetails =
     signTransactionCallback this calls invocationSignerDetails"

subsection \<open>\<^verbatim>\<open>DappService\<close>: the Merkle tree of the allowed methods\<close>

definition buildMerkleTree :: "library \<Rightarrow> OffChainSession \<Rightarrow> MerkleTree" where
  "buildMerkleTree lib sessionRequest =
     (let leaves' =
        map (\<lambda>method.
               computePoseidonHashOnElements lib
                 [Str (ALLOWED_METHOD_HASH lib),
                  Str (Contract_Address method),
                  Str (getSelectorFromName lib (selector method))])
          (allowed_methods sessionRequest)
      in new_MerkleTree lib leaves' (computePoseidonHash lib))"

text \<open>The index \<^verbatim>\<open>getSessionProofs\<close> finds for one call, and the proof it asks the tree for.\<close>

definition allowedIndex :: "OffChainSession \<Rightarrow> Call \<Rightarrow> int" where
  "allowedIndex sessionRequest call =
     findIndex
       (\<lambda>allowedMethod.
          Contract_Address allowedMethod = contractAddress call \<and>
          selector allowedMethod = entrypoint call)
       (allowed_methods sessionRequest)"

definition getSessionProofs ::
  "library \<Rightarrow> OffChainSession \<Rightarrow> Call list \<Rightarrow> error + string list list" where
  "getSessionProofs lib sessionRequest calls =
     (let tree = buildMerkleTree lib sessionRequest
      in map_err
           (\<lambda>call.
              getProof lib tree
                (element_at (leaves tree) (allowedIndex sessionRequest call)) (leaves tree))
           calls)"

subsection \<open>\<^verbatim>\<open>DappService\<close>: hashing, signing and compiling\<close>

text \<open>The root of the tree is a string: \<^verbatim>\<open>.root.toString()\<close> is the root itself.\<close>

definition compileSessionHelper :: "library \<Rightarrow> OffChainSession \<Rightarrow> OnChainSession" where
  "compileSessionHelper lib sessionRequest =
     (let bArray = byteArrayFromString lib (metadata sessionRequest);
          elements =
            [Num (int (length (data bArray)))] @ data bArray @
            [pending_word bArray, Num (pending_word_len bArray)];
          metadataHash = computePoseidonHashOnElements lib elements
      in \<lparr>OnChainSession.expires_at = OffChainSession.expires_at sessionRequest,
          allowed_methods_root = root (buildMerkleTree lib sessionRequest),
          metadata_hash = metadataHash,
          OnChainSession.session_key_guid = OffChainSession.session_key_guid sessionRequest\<rparr>)"

text \<open>The value \<^verbatim>\<open>signTxAndSession\<close> names \<^verbatim>\<open>sessionWithTxHash\<close>, and the list it hashes.\<close>

definition sessionWithTxHash_elements ::
  "library \<Rightarrow> string \<Rightarrow> string \<Rightarrow> TypedData \<Rightarrow> bool \<Rightarrow> BigNumberish list" where
  "sessionWithTxHash_elements lib transactionHash accountAddress sessionTypedData cacheAuthorisation =
     (let sessionMessageHash = getMessageHash lib sessionTypedData accountAddress
      in [Str transactionHash, Str sessionMessageHash, Num (unary_plus cacheAuthorisation)])"

definition sessionWithTxHash ::
  "library \<Rightarrow> string \<Rightarrow> string \<Rightarrow> TypedData \<Rightarrow> bool \<Rightarrow> string" where
  "sessionWithTxHash lib transactionHash accountAddress sessionTypedData cacheAuthorisation =
     computePoseidonHashOnElements lib
       (sessionWithTxHash_elements lib transactionHash accountAddress sessionTypedData
          cacheAuthorisation)"

definition signTxAndSession ::
  "library \<Rightarrow> 'w DappService \<Rightarrow> string \<Rightarrow> string \<Rightarrow> TypedData \<Rightarrow> bool \<Rightarrow> int list" where
  "signTxAndSession lib this transactionHash accountAddress sessionTypedData cacheAuthorisation =
     (let signature =
        starkCurve_sign lib
          (sessionWithTxHash lib transactionHash accountAddress sessionTypedData
             cacheAuthorisation)
          (privateKey (dappKey this))
      in [fst signature, snd signature])"

definition getStarknetSignatureType :: "string \<Rightarrow> int list \<Rightarrow> CairoCustomEnum" where
  "getStarknetSignatureType pubkey' signature =
     signerTypeToCustomEnum Starknet
       \<lparr>pubkey = pubkey', r = element_at signature 0, s = element_at signature 1\<rparr>"

definition compileSessionTokenHelper ::
  "library \<Rightarrow> 'w DappService \<Rightarrow> OnChainSession \<Rightarrow> OffChainSession \<Rightarrow> Call list \<Rightarrow> int list
     \<Rightarrow> string list \<Rightarrow> BackendSignatureResponse \<Rightarrow> bool \<Rightarrow> error + SessionToken" where
  "compileSessionTokenHelper lib this session' sessionRequest calls sessionSignature'
     session_authorization' guardianSignature' cache_authorization' =
     (case getSessionProofs lib sessionRequest calls of
        Inl e \<Rightarrow> Inl e
      | Inr proofs' \<Rightarrow>
          Inr \<lparr>session = session',
               cache_authorization = cache_authorization',
               session_authorization = session_authorization',
               sessionSignature =
                 getStarknetSignatureType (DappKey.publicKey (dappKey this)) sessionSignature',
               guardianSignature =
                 getStarknetSignatureType (BackendSignatureResponse.publicKey guardianSignature')
                   [BackendSignatureResponse.r guardianSignature',
                    BackendSignatureResponse.s guardianSignature'],
               proofs = proofs'\<rparr>)"

definition compileSessionSignature ::
  "library \<Rightarrow> 'w DappService \<Rightarrow> string list \<Rightarrow> OffChainSession \<Rightarrow> string \<Rightarrow> Call list
     \<Rightarrow> string \<Rightarrow> InvocationsSignerDetails \<Rightarrow> bool \<Rightarrow> (string list, 'w) promise" where
  "compileSessionSignature lib this sessionAuthorizationSignature sessionRequest transactionHash
     calls accountAddress invocationSignerDetails cacheAuthorisation w =
     (let session' = compileSessionHelper lib sessionRequest;
          sessionTypedData = getSessionTypedData sessionRequest (chainId this);
          sessionSignature' =
            signTxAndSession lib this transactionHash accountAddress sessionTypedData
              cacheAuthorisation
      in case argentBackend this
                (calls, invocationSignerDetails, sessionTypedData, sessionSignature',
                 cacheAuthorisation) w of
           (Inl e, w') \<Rightarrow> (Inl e, w')
         | (Inr guardianSignature', w') \<Rightarrow>
             (case compileSessionTokenHelper lib this session' sessionRequest calls
                     sessionSignature' sessionAuthorizationSignature guardianSignature'
                     cacheAuthorisation of
                Inl e \<Rightarrow> (Inl e, w')
              | Inr sessionToken \<Rightarrow>
                  (case CallData_compile lib (TokenArgs sessionToken) of
                     Inl e \<Rightarrow> (Inl e, w')
                   | Inr compiled \<Rightarrow> (Inr (SESSION_MAGIC lib # compiled), w'))))"

text \<open>
  The object given to \<^verbatim>\<open>hash.calculateInvokeTransactionHash\<close> in the V2 branch:
  \<^verbatim>\<open>{...details, senderAddress: details.walletAddress, compiledCalldata, version: details.version}\<close>.
\<close>

definition invokeArgsV2 :: "InvocationsSignerDetails \<Rightarrow> string list \<Rightarrow> CalcInvokeTxHashArgs" where
  "invokeArgsV2 details compiled =
     \<lparr>senderAddress = walletAddress details,
      CalcInvokeTxHashArgs.version = InvocationsSignerDetails.version details,
      compiledCalldata = compiled,
      CalcInvokeTxHashArgs.chainId = InvocationsSignerDetails.chainId details,
      CalcInvokeTxHashArgs.nonce = InvocationsSignerDetails.nonce details,
      CalcInvokeTxHashArgs.maxFee = InvocationsSignerDetails.maxFee details,
      CalcInvokeTxHashArgs.resourceBounds = InvocationsSignerDetails.resourceBounds details,
      CalcInvokeTxHashArgs.tip = InvocationsSignerDetails.tip details,
      CalcInvokeTxHashArgs.paymasterData = InvocationsSignerDetails.paymasterData details,
      CalcInvokeTxHashArgs.accountDeploymentData =
        InvocationsSignerDetails.accountDeploymentData details,
      CalcInvokeTxHashArgs.nonceDataAvailabilityMode =
        map_option Mode (InvocationsSignerDetails.nonceDataAvailabilityMode details),
      CalcInvokeTxHashArgs.feeDataAvailabilityMode =
        map_option Mode (InvocationsSignerDetails.feeDataAvailabilityMode details)\<rparr>"

text \<open>
  The object of the V3 branch: the same, with \<^verbatim>\<open>nonceDataAvailabilityMode\<close> and
  \<^verbatim>\<open>feeDataAvailabilityMode\<close> overwritten by the integer codes \<^verbatim>\<open>stark.intDAM\<close> returned.
\<close>

definition invokeArgsV3 ::
  "InvocationsSignerDetails \<Rightarrow> string list \<Rightarrow> int \<Rightarrow> int \<Rightarrow> CalcInvokeTxHashArgs" where
  "invokeArgsV3 details compiled nonceDAM feeDAM =
     (invokeArgsV2 details compiled)
       \<lparr>CalcInvokeTxHashArgs.nonceDataAvailabilityMode := Some (Code nonceDAM),
        CalcInvokeTxHashArgs.feeDataAvailabilityMode := Some (Code feeDAM)\<rparr>"

definition signTransaction ::
  "library \<Rightarrow> 'w DappService \<Rightarrow> string list \<Rightarrow> OffChainSession \<Rightarrow> Call list
     \<Rightarrow> InvocationsSignerDetails \<Rightarrow> bool \<Rightarrow> (string list, 'w) promise" where
  "signTransaction lib this sessionAuthorizationSignature sessionRequest calls
     invocationSignerDetails cacheAuthorisation w =
     (let compiledCalldata =
        getExecuteCalldata lib calls (cairoVersion invocationSignerDetails)
      in if includes_elem ETransactionVersion2
              (InvocationsSignerDetails.version invocationSignerDetails) then
           (let txHash =
              calculateInvokeTransactionHash lib
                (invokeArgsV2 invocationSignerDetails compiledCalldata)
            in compileSessionSignature lib this sessionAuthorizationSignature sessionRequest
                 txHash calls (walletAddress invocationSignerDetails) invocationSignerDetails
                 cacheAuthorisation w)
         else if includes_elem ETransactionVersion3
              (InvocationsSignerDetails.version invocationSignerDetails) then
           (case intDAM (InvocationsSignerDetails.nonceDataAvailabilityMode
                           invocationSignerDetails) of
              Inl e \<Rightarrow> (Inl e, w)
            | Inr nonceDAM \<Rightarrow>
                (case intDAM (InvocationsSignerDetails.feeDataAvailabilityMode
                                invocationSignerDetails) of
                   Inl e \<Rightarrow> (Inl e, w)
                 | Inr feeDAM \<Rightarrow>
                     (let txHash =
                        calculateInvokeTransactionHash lib
                          (invokeArgsV3 invocationSignerDetails compiledCalldata nonceDAM feeDAM)
                      in compileSessionSignature lib this sessionAuthorizationSignature
                           sessionRequest txHash calls (walletAddress invocationSignerDetails)
                           invocationSignerDetails cacheAuthorisation w)))
         else (Inl (Error ''unsupported signTransaction version''), w))"

text \<open>
  \<^verbatim>\<open>getAccountWithSessionSigner\<close>: the signer whose callback is \<^verbatim>\<open>signTransaction\<close> with the
  session, the owner's authorization and the cache flag fixed. (The \<^verbatim>\<open>Account\<close> built around
  it is starknet.js's; the signer is what this file contributes.)
\<close>

definition getAccountWithSessionSigner ::
  "library \<Rightarrow> 'w DappService \<Rightarrow> OffChainSession \<Rightarrow> string list \<Rightarrow> bool \<Rightarrow> 'w SessionSigner" where
  "getAccountWithSessionSigner lib this sessionRequest sessionAuthorizationSignature
     cacheAuthorisation =
     \<lparr>signTransactionCallback =
        (\<lambda>calls invocationSignerDetails.
           signTransaction lib this sessionAuthorizationSignature sessionRequest calls
             invocationSignerDetails cacheAuthorisation)\<rparr>"

section \<open>\<^verbatim>\<open>offchainSessionAccount.ts\<close> and its V5 variant\<close>

text \<open>\<^verbatim>\<open>await m\<close> followed by the rest of an \<^verbatim>\<open>async\<close> body; a throw ends the body.\<close>

definition await :: "('a, 'w) promise \<Rightarrow> ('a \<Rightarrow> ('b, 'w) promise) \<Rightarrow> ('b, 'w) promise" where
  "await m f w = (case m w of (Inl e, w') \<Rightarrow> (Inl e, w') | (Inr x, w') \<Rightarrow> f x w')"

definition resolve :: "'a \<Rightarrow> ('a, 'w) promise" where
  "resolve x w = (Inr x, w)"

definition reject :: "error \<Rightarrow> ('a, 'w) promise" where
  "reject e w = (Inl e, w)"

text \<open>A call that does not suspend: its value, or its throw.\<close>

definition settle :: "error + 'a \<Rightarrow> ('a, 'w) promise" where
  "settle v w = (v, w)"

text \<open>\<^verbatim>\<open>try { body } catch (e) { handler }\<close>.\<close>

definition try_catch :: "('a, 'w) promise \<Rightarrow> ('a, 'w) promise \<Rightarrow> ('a, 'w) promise" where
  "try_catch body handler w =
     (case body w of (Inl e, w') \<Rightarrow> handler w' | (Inr x, w') \<Rightarrow> (Inr x, w'))"

definition OFFCHAIN_SESSION_ENTRYPOINT :: string where
  "OFFCHAIN_SESSION_ENTRYPOINT = ''use_offchain_session''"

record OffchainSessionDetails =
  nonce :: string
  maxFee :: string
  version :: string

record OffchainSessionCall = Call +
  offchainSessionDetails :: "OffchainSessionDetails option"

typedecl Abi

record InvocationsDetails =
  nonce :: "BigNumberish option"
  maxFee :: "BigNumberish option"

datatype AbiOrDetails = AbiList "Abi list" | Details InvocationsDetails

record FeeEstimation =
  overall_fee :: "BigNumberish option"

record SimulatedTransaction =
  fee_estimation :: "FeeEstimation option"
  suggestedMaxFee :: "BigNumberish option"

record EstimateFee =
  suggestedMaxFee :: BigNumberish

text \<open>
  The arguments of \<^verbatim>\<open>simulateTransaction\<close> and \<^verbatim>\<open>getSuggestedFee\<close>: the payload of the one
  INVOKE invocation, \<^verbatim>\<open>skipValidate\<close> and the nonce.
\<close>

type_synonym FeeQuery = "CallOrCalls \<times> bool \<times> string"

text \<open>
  What a session account inherits from starknet.js's \<^verbatim>\<open>Account\<close> and reads or calls: its
  address, its Cairo version, its signer's two methods and the provider's requests.
\<close>

record 'w Account =
  address :: string
  cairoVersion :: "string option"
  signer_getPubKey :: "(string, 'w) promise"
  signer_signTransaction ::
    "Call list \<Rightarrow> InvocationsSignerDetails \<Rightarrow> Abi list option \<Rightarrow> (Signature, 'w) promise"
  getChainId :: "(string, 'w) promise"
  getNonce :: "(BigNumberish, 'w) promise"
  simulateTransaction :: "FeeQuery \<Rightarrow> (SimulatedTransaction list, 'w) promise"
  getSuggestedFee :: "FeeQuery \<Rightarrow> (EstimateFee, 'w) promise"

record InvokeCall =
  contract_address :: string
  entrypoint :: string
  calldata :: "BigNumberish list"
  offchainSessionDetails :: "OffchainSessionDetails option"

record AddInvokeTransactionParameters =
  calls :: "InvokeCall list"

record InvokeFunctionResponse =
  transaction_hash :: string

record 'w OffchainSessionAccount = "'w Account" +
  sessionSignature :: Signature
  account_address :: string
  wallet_request :: "AddInvokeTransactionParameters \<Rightarrow> (InvokeFunctionResponse, 'w) promise"

record 'w OffchainSessionAccountV5 = "'w Account" +
  sessionSignature :: Signature
  account_address :: string
  account_execute ::
    "OffchainSessionCall list \<Rightarrow> OffchainSessionDetails \<Rightarrow> (InvokeFunctionResponse, 'w) promise"

text \<open>
  The object literal both \<^verbatim>\<open>sessionToCall\<close> methods give to \<^verbatim>\<open>CallData.compile\<close>:
  \<^verbatim>\<open>{ signer, token1, token2, token3, token4, token5, token6 }\<close>.
\<close>

definition sessionCallObject ::
  "string \<Rightarrow> string list \<Rightarrow> string list \<Rightarrow> (string \<times> string option) list" where
  "sessionCallObject signer formattedDappSignature signature =
     [(''signer'', Some signer),
      (''token1'', element_at formattedDappSignature 0),
      (''token2'', element_at formattedDappSignature 1),
      (''token3'', element_at signature 0),
      (''token4'', element_at signature 1),
      (''token5'', element_at signature 2),
      (''token6'', element_at signature 3)]"

subsection \<open>\<^verbatim>\<open>OffchainSessionAccount\<close>\<close>

definition sessionToCall ::
  "library \<Rightarrow> 'w OffchainSessionAccount \<Rightarrow> Signature \<Rightarrow> OffchainSessionDetails
     \<Rightarrow> (OffchainSessionCall, 'w) promise" where
  "sessionToCall lib this dappSignature offchainSessionDetails' =
     await (settle (formatSignature lib (OffchainSessionAccount.sessionSignature this)))
       (\<lambda>signature.
     await (settle (formatSignature lib dappSignature))
       (\<lambda>formattedDappSignature.
     await (signer_getPubKey this)
       (\<lambda>signer.
     await (settle (CallData_compile lib
                      (ObjectArgs (sessionCallObject signer formattedDappSignature signature))))
       (\<lambda>compiled.
     resolve
       \<lparr>contractAddress = address this,
        Call.entrypoint = OFFCHAIN_SESSION_ENTRYPOINT,
        Call.calldata = map Str compiled,
        OffchainSessionCall.offchainSessionDetails = Some offchainSessionDetails'\<rparr>))))"

text \<open>A \<^verbatim>\<open>Call\<close> among \<^verbatim>\<open>OffchainSessionCall\<close>s: the same object, with no session details.\<close>

definition asSessionCall :: "Call \<Rightarrow> OffchainSessionCall" where
  "asSessionCall call = Call.extend call (OffchainSessionCall.fields None)"

definition extendCallsBySession ::
  "library \<Rightarrow> 'w OffchainSessionAccount \<Rightarrow> Call list \<Rightarrow> Signature \<Rightarrow> OffchainSessionDetails
     \<Rightarrow> (OffchainSessionCall list, 'w) promise" where
  "extendCallsBySession lib this calls' dappSignature offchainSessionDetails' =
     await (sessionToCall lib this dappSignature offchainSessionDetails')
       (\<lambda>sessionCall. resolve (sessionCall # map asSessionCall calls'))"

text \<open>
  The \<^verbatim>\<open>try\<close> block of \<^verbatim>\<open>execute\<close> and its \<^verbatim>\<open>catch\<close>: the fee of the first simulated
  transaction (destructuring an absent estimation or fee estimation throws, and is caught), or
  the suggested fee.
\<close>

definition simulatedMaxFee ::
  "('w, 'z) Account_scheme \<Rightarrow> CallOrCalls \<Rightarrow> string \<Rightarrow> (BigNumberish option, 'w) promise" where
  "simulatedMaxFee this calls' nonce' =
     await (simulateTransaction this (calls', True, nonce'))
       (\<lambda>sim.
          case sim of
            [] \<Rightarrow> reject (Error ''TypeError'')
          | estimation # _ \<Rightarrow>
              (case fee_estimation estimation of
                 None \<Rightarrow> reject (Error ''TypeError'')
               | Some fee_estimation' \<Rightarrow>
                   resolve
                     (case SimulatedTransaction.suggestedMaxFee estimation of
                        Some fee \<Rightarrow> Some fee
                      | None \<Rightarrow> overall_fee fee_estimation')))"

definition suggestedMaxFee_fallback ::
  "('w, 'z) Account_scheme \<Rightarrow> CallOrCalls \<Rightarrow> string \<Rightarrow> (BigNumberish option, 'w) promise" where
  "suggestedMaxFee_fallback this calls' nonce' =
     await (getSuggestedFee this (calls', True, nonce'))
       (\<lambda>estimate. resolve (Some (EstimateFee.suggestedMaxFee estimate)))"

text \<open>\<^verbatim>\<open>x ?? await m\<close>.\<close>

definition nullish_or :: "'a option \<Rightarrow> ('a, 'w) promise \<Rightarrow> ('a, 'w) promise" where
  "nullish_or x m = (case x of Some v \<Rightarrow> resolve v | None \<Rightarrow> m)"

text \<open>\<^verbatim>\<open>maxFee.toString()\<close>: a TypeError on undefined.\<close>

definition maxFee_toString :: "library \<Rightarrow> BigNumberish option \<Rightarrow> error + string" where
  "maxFee_toString lib maxFee' =
     (case maxFee' of None \<Rightarrow> Inl (Error ''TypeError'') | Some fee \<Rightarrow> Inr (toString lib fee))"

text \<open>The signer details both \<^verbatim>\<open>execute\<close> methods build: version \<^verbatim>\<open>"0x1"\<close>.\<close>

definition signerDetails ::
  "string \<Rightarrow> string option \<Rightarrow> string \<Rightarrow> string \<Rightarrow> BigNumberish option \<Rightarrow> InvocationsSignerDetails" where
  "signerDetails walletAddress' cairoVersion' chainId' nonce' maxFee' =
     \<lparr>walletAddress = walletAddress',
      InvocationsSignerDetails.cairoVersion =
        (case cairoVersion' of Some v \<Rightarrow> v | None \<Rightarrow> ''1''),
      InvocationsSignerDetails.chainId = chainId',
      InvocationsSignerDetails.nonce = Str nonce',
      InvocationsSignerDetails.version = ''0x1'',
      InvocationsSignerDetails.maxFee = maxFee',
      InvocationsSignerDetails.resourceBounds = None,
      InvocationsSignerDetails.tip = None,
      InvocationsSignerDetails.paymasterData = None,
      InvocationsSignerDetails.accountDeploymentData = None,
      InvocationsSignerDetails.nonceDataAvailabilityMode = None,
      InvocationsSignerDetails.feeDataAvailabilityMode = None\<rparr>"

text \<open>
  \<^verbatim>\<open>execute\<close> up to the request it hands to the wallet: \<^verbatim>\<open>invokeParams\<close>, whose calls are
  the calls extended by the session call.
\<close>

definition invokeParams ::
  "library \<Rightarrow> 'w OffchainSessionAccount \<Rightarrow> CallOrCalls \<Rightarrow> Abi list option \<Rightarrow> InvocationsDetails
     \<Rightarrow> (AddInvokeTransactionParameters, 'w) promise" where
  "invokeParams lib this calls' abis transactionsDetail =
     (let transactions = ensureArray lib calls' in
      await (getChainId this)
        (\<lambda>chainId'.
      await (nullish_or (InvocationsDetails.nonce transactionsDetail) (getNonce this))
        (\<lambda>nonce0.
      let nonce' = toHex lib nonce0 in
      await (try_catch (simulatedMaxFee this calls' nonce')
               (suggestedMaxFee_fallback this calls' nonce'))
        (\<lambda>maxFee'.
      await (signer_signTransaction this transactions
               (signerDetails (OffchainSessionAccount.account_address this)
                  (Account.cairoVersion this) chainId' nonce' maxFee')
               abis)
        (\<lambda>dappSignature.
      await (settle (maxFee_toString lib maxFee'))
        (\<lambda>maxFeeString.
      await (extendCallsBySession lib this transactions dappSignature
               \<lparr>OffchainSessionDetails.nonce = nonce',
                OffchainSessionDetails.maxFee = maxFeeString,
                OffchainSessionDetails.version = ''0x1''\<rparr>)
        (\<lambda>transactionsWithSession.
      resolve
        \<lparr>calls =
           map (\<lambda>t. \<lparr>contract_address = contractAddress t,
                       InvokeCall.entrypoint = Call.entrypoint t,
                       InvokeCall.calldata = Call.calldata t,
                       InvokeCall.offchainSessionDetails =
                         OffchainSessionCall.offchainSessionDetails t\<rparr>)
             transactionsWithSession\<rparr>)))))))"

definition execute ::
  "library \<Rightarrow> 'w OffchainSessionAccount \<Rightarrow> CallOrCalls \<Rightarrow> Abi list option \<Rightarrow> InvocationsDetails
     \<Rightarrow> (InvokeFunctionResponse, 'w) promise" where
  "execute lib this calls' abis transactionsDetail =
     await (invokeParams lib this calls' abis transactionsDetail) (wallet_request this)"

subsection \<open>\<^verbatim>\<open>OffchainSessionAccountV5\<close>\<close>

definition sessionToCallV5 ::
  "library \<Rightarrow> 'w OffchainSessionAccountV5 \<Rightarrow> Signature \<Rightarrow> (OffchainSessionCall, 'w) promise" where
  "sessionToCallV5 lib this dappSignature =
     await (settle (formatSignature lib (OffchainSessionAccountV5.sessionSignature this)))
       (\<lambda>signature.
     await (settle (formatSignature lib dappSignature))
       (\<lambda>formattedDappSignature.
     await (signer_getPubKey this)
       (\<lambda>signer.
     await (settle (CallData_compile lib
                      (ObjectArgs (sessionCallObject signer formattedDappSignature signature))))
       (\<lambda>compiled.
     resolve
       \<lparr>contractAddress = address this,
        Call.entrypoint = OFFCHAIN_SESSION_ENTRYPOINT,
        Call.calldata = map Str compiled,
        OffchainSessionCall.offchainSessionDetails = None\<rparr>))))"

definition extendCallsBySessionV5 ::
  "library \<Rightarrow> 'w OffchainSessionAccountV5 \<Rightarrow> Call list \<Rightarrow> Signature
     \<Rightarrow> (OffchainSessionCall list, 'w) promise" where
  "extendCallsBySessionV5 lib this calls' dappSignature =
     await (sessionToCallV5 lib this dappSignature)
       (\<lambda>sessionCall. resolve (sessionCall # map asSessionCall calls'))"

text \<open>\<^verbatim>\<open>!maxFee\<close>: undefined, zero and the empty string are falsy.\<close>

fun falsy :: "BigNumberish option \<Rightarrow> bool" where
  "falsy None = True"
| "falsy (Some (Num n)) = (n = 0)"
| "falsy (Some (BigInt n)) = (n = 0)"
| "falsy (Some (Str v)) = (v = [])"

text \<open>
  \<^verbatim>\<open>execute\<close> of the V5 account up to the two arguments it hands to \<^verbatim>\<open>this.account.execute\<close>:
  the calls extended by the session call, and the details \<^verbatim>\<open>{ nonce, maxFee, version }\<close>.
\<close>

definition submissionV5 ::
  "library \<Rightarrow> 'w OffchainSessionAccountV5 \<Rightarrow> CallOrCalls \<Rightarrow> AbiOrDetails option
     \<Rightarrow> InvocationsDetails \<Rightarrow> (OffchainSessionCall list \<times> OffchainSessionDetails, 'w) promise" where
  "submissionV5 lib this calls' abiOrDetails transactionsDetail =
     (let transactions = ensureArray lib calls';
          version' = ''0x1'' in
      await (getChainId this)
        (\<lambda>chainId'.
      let details =
        (case abiOrDetails of
           None \<Rightarrow> transactionsDetail
         | Some (AbiList _) \<Rightarrow> transactionsDetail
         | Some (Details d) \<Rightarrow> d) in
      await (nullish_or (InvocationsDetails.nonce details) (getNonce this))
        (\<lambda>nonce0.
      let nonce' = toHex lib nonce0 in
      await (if falsy (InvocationsDetails.maxFee details) then
               try_catch (simulatedMaxFee this calls' nonce')
                 (suggestedMaxFee_fallback this calls' nonce')
             else resolve (InvocationsDetails.maxFee details))
        (\<lambda>maxFee'.
      await (signer_signTransaction this transactions
               (signerDetails (OffchainSessionAccountV5.account_address this)
                  (Account.cairoVersion this) chainId' nonce' maxFee')
               None)
        (\<lambda>dappSignature.
      await (extendCallsBySessionV5 lib this transactions dappSignature)
        (\<lambda>transactionsWithSession.
      await (settle (maxFee_toString lib maxFee'))
        (\<lambda>maxFeeString.
      resolve
        (transactionsWithSession,
         \<lparr>OffchainSessionDetails.nonce = nonce',
          OffchainSessionDetails.maxFee = maxFeeString,
          OffchainSessionDetails.version = version'\<rparr>))))))))"

definition executeV5 ::
  "library \<Rightarrow> 'w OffchainSessionAccountV5 \<Rightarrow> CallOrCalls \<Rightarrow> AbiOrDetails option
     \<Rightarrow> InvocationsDetails \<Rightarrow> (InvokeFunctionResponse, 'w) promise" where
  "executeV5 lib this calls' abiOrDetails transactionsDetail =
     await (submissionV5 lib this calls' abiOrDetails transactionsDetail)
       (\<lambda>(transactionsWithSession, details). account_execute this transactionsWithSession details)"

section \<open>A mock library and fixtures\<close>

text \<open>
  The theorems hold for every library. To run the model on concrete inputs, as the repository's
  test does with a mocked backend, the library is replaced by small stand-ins: a hash is the
  text of its arguments, a signature the lengths of what it signs, \<^verbatim>\<open>CallData.compile\<close> lists
  the values of an object in order and refuses an undefined one, and \<^verbatim>\<open>MerkleTree.getProof\<close>
  throws "leaf not found" for a leaf that is not in the tree.
\<close>

fun hexdigit :: "nat \<Rightarrow> char" where
  "hexdigit n = (''0123456789abcdef'' ! (n mod 16))"

fun show_nat :: "nat \<Rightarrow> nat \<Rightarrow> string" where
  "show_nat b n =
     (if b < 2 \<or> n < b then [hexdigit n] else show_nat b (n div b) @ [hexdigit (n mod b)])"

definition show_int :: "int \<Rightarrow> string" where
  "show_int n = (if n < 0 then ''-'' @ show_nat 10 (nat (- n)) else show_nat 10 (nat n))"

fun bn_text :: "BigNumberish \<Rightarrow> string" where
  "bn_text (Str v) = v"
| "bn_text (Num n) = show_int n"
| "bn_text (BigInt n) = show_int n"

definition mock_hash :: "string \<Rightarrow> BigNumberish list \<Rightarrow> string" where
  "mock_hash tag xs = tag @ ''('' @ concat (map (\<lambda>x. bn_text x @ '','') xs) @ '')''"

definition mock_encodeShortString :: "string \<Rightarrow> string" where
  "mock_encodeShortString v = ''0x'' @ concat (map (\<lambda>c. show_nat 16 (of_char c)) v)"

definition mock_compile_enum :: "CairoCustomEnum \<Rightarrow> string list" where
  "mock_compile_enum e =
     ''0'' # pubkey (snd e) #
     map (\<lambda>v. case v of None \<Rightarrow> ''undefined'' | Some n \<Rightarrow> show_int n)
       [StarknetSignature.r (snd e), StarknetSignature.s (snd e)]"

definition mock_compile_array :: "string list \<Rightarrow> string list" where
  "mock_compile_array xs = show_nat 10 (length xs) # xs"

fun mock_compile :: "RawArgs \<Rightarrow> error + string list" where
  "mock_compile (ObjectArgs kvs) =
     map_err (\<lambda>kv. case snd kv of
                      None \<Rightarrow> Inl (Error ''undefined variable cannot be computed by felt()'')
                    | Some v \<Rightarrow> Inr v) kvs"
| "mock_compile (TokenArgs token) =
     Inr ([show_int (OnChainSession.expires_at (session token)),
           allowed_methods_root (session token),
           metadata_hash (session token),
           OnChainSession.session_key_guid (session token),
           show_int (unary_plus (cache_authorization token))] @
          mock_compile_array (session_authorization token) @
          mock_compile_enum (SessionToken.sessionSignature token) @
          mock_compile_enum (guardianSignature token) @
          show_nat 10 (length (proofs token)) # concat (map mock_compile_array (proofs token)))"

fun mock_formatSignature :: "Signature \<Rightarrow> error + string list" where
  "mock_formatSignature (ArraySignature xs) = Inr xs"
| "mock_formatSignature (WeierstrassSignature a b) =
     Inr [''0x'' @ show_nat 16 (nat a), ''0x'' @ show_nat 16 (nat b)]"

fun mock_toHex :: "BigNumberish \<Rightarrow> string" where
  "mock_toHex (Str v) = v"
| "mock_toHex (Num n) = ''0x'' @ show_nat 16 (nat n)"
| "mock_toHex (BigInt n) = ''0x'' @ show_nat 16 (nat n)"

fun mock_ensureArray :: "CallOrCalls \<Rightarrow> Call list" where
  "mock_ensureArray (OneCall c) = [c]"
| "mock_ensureArray (ManyCalls cs) = cs"

text \<open>
  The first lines of starknet.js's \<^verbatim>\<open>getProof\<close> are
  \<^verbatim>\<open>const index = branch.indexOf(leaf); if (index === -1) throw new Error('leaf not found')\<close>:
  an undefined leaf, or one that is not in the branch, throws. The proof returned otherwise is
  a stand-in.
\<close>

definition mock_getProof :: "MerkleTree \<Rightarrow> string option \<Rightarrow> string list \<Rightarrow> error + string list" where
  "mock_getProof tree leaf branch =
     (case leaf of
        None \<Rightarrow> Inl (Error ''leaf not found'')
      | Some l \<Rightarrow> if l \<in> set branch then Inr (remove1 l branch) else Inl (Error ''leaf not found''))"

definition mock_library :: library where
  "mock_library =
     \<lparr>encodeShortString = mock_encodeShortString,
      getExecuteCalldata =
        (\<lambda>cs v. concat (map (\<lambda>c. contractAddress c # Call.entrypoint c # map bn_text (Call.calldata c)) cs)),
      v2calculateInvokeTransactionHash =
        (\<lambda>sender ver compiled fee chain n.
           mock_hash ''invokeV2'' ([Str sender, Str ver] @ map Str compiled @ [Str chain, n])),
      v3calculateInvokeTransactionHash =
        (\<lambda>sender ver compiled chain n add ndam fdam rb t pd.
           mock_hash ''invokeV3''
             ([Str sender, Str ver] @ map Str compiled @ [Str chain, n] @
              map (\<lambda>m. case m of Some (Code k) \<Rightarrow> Num k | _ \<Rightarrow> Str ''?'') [ndam, fdam])),
      getMessageHash =
        (\<lambda>td account.
           mock_hash ''message''
             [Str (domain_chainId td), Str (OffChainSession.session_key_guid (message td)),
              Str account]),
      computePoseidonHashOnElements = mock_hash ''poseidon'',
      computePoseidonHash = (\<lambda>a b. mock_hash ''poseidon'' [a, b]),
      starkCurve_sign = (\<lambda>msg key. (int (length msg), int (length key))),
      getSelectorFromName = (\<lambda>name. mock_hash ''selector'' [Str name]),
      new_MerkleTree =
        (\<lambda>ls h. \<lparr>leaves = ls, branches = [], root = foldr (\<lambda>l acc. h (Str l) (Str acc)) ls ''0x0''\<rparr>),
      getProof = mock_getProof,
      byteArrayFromString =
        (\<lambda>v. \<lparr>data = [], pending_word = Str (mock_encodeShortString v),
               pending_word_len = int (length v)\<rparr>),
      CallData_compile = mock_compile,
      formatSignature = mock_formatSignature,
      toHex = mock_toHex,
      toString = bn_text,
      ensureArray = mock_ensureArray,
      ALLOWED_METHOD_HASH = ''0xa11''\<rparr>"

text \<open>
  The backend of the test: it answers every request with the same signature. Its state is the
  list of the requests it has received.
\<close>

definition mock_backend :: "BackendRequest list ArgentBackendService" where
  "mock_backend request w =
     (Inr \<lparr>BackendSignatureResponse.publicKey = ''0x123'',
           BackendSignatureResponse.r = 10, BackendSignatureResponse.s = 10\<rparr>,
      w @ [request])"

definition test_service :: "BackendRequest list DappService" where
  "test_service =
     \<lparr>argentBackend = mock_backend,
      DappService.chainId = ''SN_GOERLI'',
      dappKey = \<lparr>privateKey = ''0x5ec'', DappKey.publicKey = ''0x9b''\<rparr>\<rparr>"

definition test_sessionRequest :: OffChainSession where
  "test_sessionRequest =
     \<lparr>OffChainSession.expires_at = 1234567890,
      allowed_methods = [\<lparr>Contract_Address = ''0xabc'', selector = ''some_method''\<rparr>],
      metadata = ''test'',
      OffChainSession.session_key_guid = ''0x116d''\<rparr>"

definition test_sessionAuthorizationSignature :: "string list" where
  "test_sessionAuthorizationSignature = [''signature1'', ''signature2'']"

definition test_details :: "string \<Rightarrow> InvocationsSignerDetails" where
  "test_details version' =
     \<lparr>walletAddress = ''0x77'',
      InvocationsSignerDetails.cairoVersion = ''1'',
      InvocationsSignerDetails.chainId = ''SN_GOERLI'',
      InvocationsSignerDetails.nonce = Num 1,
      InvocationsSignerDetails.version = version',
      InvocationsSignerDetails.maxFee = Some (BigInt 1000),
      InvocationsSignerDetails.resourceBounds = None,
      InvocationsSignerDetails.tip = None,
      InvocationsSignerDetails.paymasterData = None,
      InvocationsSignerDetails.accountDeploymentData = None,
      InvocationsSignerDetails.nonceDataAvailabilityMode = Some L1,
      InvocationsSignerDetails.feeDataAvailabilityMode = Some L2\<rparr>"

definition test_call :: "string \<Rightarrow> string \<Rightarrow> Call" where
  "test_call contract' entrypoint' =
     \<lparr>contractAddress = contract', Call.entrypoint = entrypoint', Call.calldata = [Str ''0x123'']\<rparr>"

text \<open>A session account whose collaborators answer at once; its state counts their answers.\<close>

definition tick :: "'a \<Rightarrow> ('a, nat) promise" where
  "tick x w = (Inr x, Suc w)"

definition test_account :: "nat OffchainSessionAccount" where
  "test_account =
     \<lparr>address = ''0x5e55'',
      Account.cairoVersion = Some ''1'',
      signer_getPubKey = tick ''0x9b'',
      signer_signTransaction = (\<lambda>cs d abis. tick (ArraySignature [''0xd0'', ''0xd1''])),
      getChainId = tick ''SN_SEPOLIA'',
      getNonce = tick (Num 7),
      simulateTransaction =
        (\<lambda>q. tick [\<lparr>fee_estimation = Some \<lparr>overall_fee = Some (Num 1000)\<rparr>,
                       SimulatedTransaction.suggestedMaxFee = Some (Num 1500)\<rparr>]),
      getSuggestedFee = (\<lambda>q. tick \<lparr>EstimateFee.suggestedMaxFee = Num 2000\<rparr>),
      OffchainSessionAccount.sessionSignature = ArraySignature [''0xa'', ''0xb'', ''0xc'', ''0xd''],
      OffchainSessionAccount.account_address = ''0xacc'',
      wallet_request = (\<lambda>p. tick \<lparr>transaction_hash = ''0xfeed''\<rparr>)\<rparr>"

definition test_accountV5 :: "nat OffchainSessionAccountV5" where
  "test_accountV5 =
     \<lparr>address = ''0x5e55'',
      Account.cairoVersion = Some ''1'',
      signer_getPubKey = tick ''0x9b'',
      signer_signTransaction = (\<lambda>cs d abis. tick (ArraySignature [''0xd0'', ''0xd1''])),
      getChainId = tick ''SN_SEPOLIA'',
      getNonce = tick (Num 7),
      simulateTransaction =
        (\<lambda>q. tick [\<lparr>fee_estimation = Some \<lparr>overall_fee = Some (Num 1000)\<rparr>,
                       SimulatedTransaction.suggestedMaxFee = Some (Num 1500)\<rparr>]),
      getSuggestedFee = (\<lambda>q. tick \<lparr>EstimateFee.suggestedMaxFee = Num 2000\<rparr>),
      OffchainSessionAccountV5.sessionSignature =
        ArraySignature [''0xa'', ''0xb'', ''0xc'', ''0xd''],
      OffchainSessionAccountV5.account_address = ''0xacc'',
      account_execute = (\<lambda>cs d. tick \<lparr>transaction_hash = ''0xfeed''\<rparr>)\<rparr>"


section \<open>Lemmas about the built-ins\<close>

lemmas service_defs =
  signTransaction_def compileSessionSignature_def compileSessionTokenHelper_def
  compileSessionHelper_def getSessionProofs_def buildMerkleTree_def allowedIndex_def
  signTxAndSession_def sessionWithTxHash_def sessionWithTxHash_elements_def
  getStarknetSignatureType_def signerTypeToCustomEnum_def getSessionTypedData_def
  calculateInvokeTransactionHash_def isV3InvokeTx_def invokeArgsV2_def invokeArgsV3_def
  SESSION_MAGIC_def includes_elem_def ETransactionVersion2_def ETransactionVersion3_def
  findIndex_def element_at_def unary_plus_def

lemmas mock_defs =
  mock_library_def mock_backend_def mock_hash_def mock_encodeShortString_def
  mock_compile_enum_def mock_compile_array_def mock_getProof_def show_int_def
  test_service_def test_sessionRequest_def test_sessionAuthorizationSignature_def
  test_details_def test_call_def





lemma findIndex_from_found:
  "\<exists>x \<in> set xs. p x \<Longrightarrow>
   i \<le> findIndex_from p xs i \<and> findIndex_from p xs i < i + int (length xs)"
proof (induction xs arbitrary: i)
  case Nil
  then show ?case by simp
next
  case (Cons x xs)
  show ?case
  proof (cases "p x")
    case True
    then show ?thesis by simp
  next
    case False
    with Cons.prems have "\<exists>x \<in> set xs. p x" by simp
    from Cons.IH [OF this, of "i + 1"] False show ?thesis by simp
  qed
qed

lemma await_InrE:
  assumes "await m f w = (Inr y, w')"
  obtains x w1 where "m w = (Inr x, w1)" and "f x w1 = (Inr y, w')"
  using assms by (auto simp: await_def split: prod.splits sum.splits)

lemma resolve_InrE:
  assumes "resolve x w = (Inr y, w')"
  obtains "y = x" and "w' = w"
  using assms by (auto simp: resolve_def)

section \<open>The session-bound signer\<close>

text \<open>
  C9. \<^verbatim>\<open>SessionSigner.signRaw\<close> fails with the error "Method not implemented." for every
  input string, in every state, and leaves the state as it was; \<^verbatim>\<open>signTransaction\<close> is the
  method that answers, with whatever the callback of the signer answers.
\<close>

theorem signRaw_not_implemented:
  "signRaw this msg w = (Inl (Error ''Method not implemented.''), w) \<and>
   SessionSigner_signTransaction this cs d = signTransactionCallback this cs d"
  by (simp add: signRaw_def SessionSigner_signTransaction_def)

section \<open>The hashes\<close>

text \<open>
  C1. For every transaction hash, account address, typed data and cache flag, the message
  given to the curve signature under the dapp's private key is the Poseidon hash of the three
  elements: the transaction hash, the message hash of the typed data for the account address,
  and the cache flag as the number 1 or 0. The signature returned is its \<open>r\<close> and \<open>s\<close>.
\<close>

theorem signTxAndSession_signs_combined_hash:
  "signTxAndSession lib this txh acct td c =
     (let sessionMessageHash = getMessageHash lib td acct;
          signed = computePoseidonHashOnElements lib
                     [Str txh, Str sessionMessageHash, Num (if c then 1 else 0)];
          sg = starkCurve_sign lib signed (privateKey (dappKey this))
      in [fst sg, snd sg])"
  by (simp add: signTxAndSession_def sessionWithTxHash_def sessionWithTxHash_elements_def
      unary_plus_def Let_def)

text \<open>
  C6. For every session request, the metadata hash of the compiled session is the Poseidon
  hash of: the number of data words of the byte array of the metadata string, the data words,
  the pending word, and the length of the pending word, in that order.
\<close>

theorem metadata_hash_of_byte_array:
  "metadata_hash (compileSessionHelper lib req) =
     (let bArray = byteArrayFromString lib (metadata req)
      in computePoseidonHashOnElements lib
           (Num (int (length (data bArray))) # data bArray @
            [pending_word bArray, Num (pending_word_len bArray)]))"
  by (simp add: compileSessionHelper_def Let_def)

section \<open>The choice of the transaction hash\<close>

text \<open>
  C2. For every signer-details object: when its version is one of the V2 versions, the
  signature is compiled for the V2 invoke hash of the wallet address, the version, the compiled
  calldata, the maximal fee, the chain id and the nonce; when it is one of the V3 versions (and
  the object carries its two data-availability modes, as a V3 object does), for the V3 invoke
  hash, in which each mode is the integer code 0 for L1 and 1 for L2; and when it is neither,
  \<^verbatim>\<open>signTransaction\<close> fails with "unsupported signTransaction version" and the state of the
  backend is the one it started in: the backend was not called.
\<close>

theorem signTransaction_version_dispatch:
  "(InvocationsSignerDetails.version d \<in> set ETransactionVersion2 \<longrightarrow>
      signTransaction lib this sas req cs d c w =
        compileSessionSignature lib this sas req
          (v2calculateInvokeTransactionHash lib (walletAddress d)
             (InvocationsSignerDetails.version d)
             (getExecuteCalldata lib cs (InvocationsSignerDetails.cairoVersion d))
             (InvocationsSignerDetails.maxFee d) (InvocationsSignerDetails.chainId d)
             (InvocationsSignerDetails.nonce d))
          cs (walletAddress d) d c w) \<and>
   (InvocationsSignerDetails.version d \<in> set ETransactionVersion3 \<and>
    InvocationsSignerDetails.nonceDataAvailabilityMode d = Some n \<and>
    InvocationsSignerDetails.feeDataAvailabilityMode d = Some f \<longrightarrow>
      signTransaction lib this sas req cs d c w =
        compileSessionSignature lib this sas req
          (v3calculateInvokeTransactionHash lib (walletAddress d)
             (InvocationsSignerDetails.version d)
             (getExecuteCalldata lib cs (InvocationsSignerDetails.cairoVersion d))
             (InvocationsSignerDetails.chainId d) (InvocationsSignerDetails.nonce d)
             (InvocationsSignerDetails.accountDeploymentData d)
             (Some (Code (case n of L1 \<Rightarrow> 0 | L2 \<Rightarrow> 1)))
             (Some (Code (case f of L1 \<Rightarrow> 0 | L2 \<Rightarrow> 1)))
             (InvocationsSignerDetails.resourceBounds d) (InvocationsSignerDetails.tip d)
             (InvocationsSignerDetails.paymasterData d))
          cs (walletAddress d) d c w) \<and>
   (InvocationsSignerDetails.version d \<notin> set ETransactionVersion2 \<and>
    InvocationsSignerDetails.version d \<notin> set ETransactionVersion3 \<longrightarrow>
      signTransaction lib this sas req cs d c w =
        (Inl (Error ''unsupported signTransaction version''), w))"
proof (intro conjI impI)
  assume v2: "InvocationsSignerDetails.version d \<in> set ETransactionVersion2"
  then have "\<not> isV3InvokeTx
      (invokeArgsV2 d (getExecuteCalldata lib cs (InvocationsSignerDetails.cairoVersion d)))"
    by (auto simp: isV3InvokeTx_def includes_elem_def invokeArgsV2_def ETransactionVersion2_def)
  with v2 show "signTransaction lib this sas req cs d c w =
        compileSessionSignature lib this sas req
          (v2calculateInvokeTransactionHash lib (walletAddress d)
             (InvocationsSignerDetails.version d)
             (getExecuteCalldata lib cs (InvocationsSignerDetails.cairoVersion d))
             (InvocationsSignerDetails.maxFee d) (InvocationsSignerDetails.chainId d)
             (InvocationsSignerDetails.nonce d))
          cs (walletAddress d) d c w"
    by (simp add: signTransaction_def includes_elem_def calculateInvokeTransactionHash_def
        invokeArgsV2_def Let_def)
next
  assume h: "InvocationsSignerDetails.version d \<in> set ETransactionVersion3 \<and>
    InvocationsSignerDetails.nonceDataAvailabilityMode d = Some n \<and>
    InvocationsSignerDetails.feeDataAvailabilityMode d = Some f"
  then have v3: "InvocationsSignerDetails.version d \<in> set ETransactionVersion3" by simp
  then have not_v2: "InvocationsSignerDetails.version d \<notin> set ETransactionVersion2"
    by (auto simp: ETransactionVersion2_def ETransactionVersion3_def)
  have is_v3: "isV3InvokeTx (invokeArgsV3 d cd k1 k2)" for cd k1 k2
    using v3 by (simp add: isV3InvokeTx_def includes_elem_def invokeArgsV3_def invokeArgsV2_def
        ETransactionVersion3_def)
  have codes: "intDAM (Some n) = Inr (case n of L1 \<Rightarrow> 0 | L2 \<Rightarrow> 1)"
    "intDAM (Some f) = Inr (case f of L1 \<Rightarrow> 0 | L2 \<Rightarrow> 1)"
    by (cases n; simp) (cases f; simp)
  show "signTransaction lib this sas req cs d c w =
        compileSessionSignature lib this sas req
          (v3calculateInvokeTransactionHash lib (walletAddress d)
             (InvocationsSignerDetails.version d)
             (getExecuteCalldata lib cs (InvocationsSignerDetails.cairoVersion d))
             (InvocationsSignerDetails.chainId d) (InvocationsSignerDetails.nonce d)
             (InvocationsSignerDetails.accountDeploymentData d)
             (Some (Code (case n of L1 \<Rightarrow> 0 | L2 \<Rightarrow> 1)))
             (Some (Code (case f of L1 \<Rightarrow> 0 | L2 \<Rightarrow> 1)))
             (InvocationsSignerDetails.resourceBounds d) (InvocationsSignerDetails.tip d)
             (InvocationsSignerDetails.paymasterData d))
          cs (walletAddress d) d c w"
    using h not_v2 is_v3 codes
    by (simp add: signTransaction_def includes_elem_def calculateInvokeTransactionHash_def
        invokeArgsV3_def invokeArgsV2_def Let_def)
next
  assume "InvocationsSignerDetails.version d \<notin> set ETransactionVersion2 \<and>
    InvocationsSignerDetails.version d \<notin> set ETransactionVersion3"
  then show "signTransaction lib this sas req cs d c w =
        (Inl (Error ''unsupported signTransaction version''), w)"
    by (simp add: signTransaction_def includes_elem_def Let_def)
qed

text \<open>
  The three cases on the details of the test: version 0x2 (the test's own), version 0x3 with
  the modes L1 and L2, and version 0x4, which no enum lists. In the last the mocked backend
  has recorded no request.
\<close>

theorem signTransaction_version_dispatch_witness:
  "InvocationsSignerDetails.version (test_details ''0x2'') \<in> set ETransactionVersion2 \<and>
   signTransaction mock_library test_service test_sessionAuthorizationSignature
     test_sessionRequest [] (test_details ''0x2'') False [] =
     compileSessionSignature mock_library test_service test_sessionAuthorizationSignature
       test_sessionRequest ''invokeV2(0x77,0x2,SN_GOERLI,1,)'' [] ''0x77''
       (test_details ''0x2'') False [] \<and>
   InvocationsSignerDetails.version (test_details ''0x3'') \<in> set ETransactionVersion3 \<and>
   signTransaction mock_library test_service test_sessionAuthorizationSignature
     test_sessionRequest [] (test_details ''0x3'') False [] =
     compileSessionSignature mock_library test_service test_sessionAuthorizationSignature
       test_sessionRequest ''invokeV3(0x77,0x3,SN_GOERLI,1,0,1,)'' [] ''0x77''
       (test_details ''0x3'') False [] \<and>
   InvocationsSignerDetails.version (test_details ''0x4'') \<notin> set ETransactionVersion2 \<and>
   InvocationsSignerDetails.version (test_details ''0x4'') \<notin> set ETransactionVersion3 \<and>
   signTransaction mock_library test_service test_sessionAuthorizationSignature
     test_sessionRequest [] (test_details ''0x4'') False [] =
     (Inl (Error ''unsupported signTransaction version''), [])"
proof -
  have v2: "InvocationsSignerDetails.version (test_details ''0x2'') \<in> set ETransactionVersion2"
    by (simp add: test_details_def ETransactionVersion2_def)
  have v3: "InvocationsSignerDetails.version (test_details ''0x3'') \<in> set ETransactionVersion3"
    "InvocationsSignerDetails.nonceDataAvailabilityMode (test_details ''0x3'') = Some L1"
    "InvocationsSignerDetails.feeDataAvailabilityMode (test_details ''0x3'') = Some L2"
    by (simp_all add: test_details_def ETransactionVersion3_def)
  have v4: "InvocationsSignerDetails.version (test_details ''0x4'') \<notin> set ETransactionVersion2"
    "InvocationsSignerDetails.version (test_details ''0x4'') \<notin> set ETransactionVersion3"
    by (simp_all add: test_details_def ETransactionVersion2_def ETransactionVersion3_def)
  have h2: "v2calculateInvokeTransactionHash mock_library ''0x77'' ''0x2''
      (getExecuteCalldata mock_library [] ''1'') (Some (BigInt 1000)) ''SN_GOERLI'' (Num 1) =
      ''invokeV2(0x77,0x2,SN_GOERLI,1,)''"
    by (simp add: mock_defs)
  have h3: "v3calculateInvokeTransactionHash mock_library ''0x77'' ''0x3''
      (getExecuteCalldata mock_library [] ''1'') ''SN_GOERLI'' (Num 1) None
      (Some (Code 0)) (Some (Code 1)) None None None =
      ''invokeV3(0x77,0x3,SN_GOERLI,1,0,1,)''"
    by (simp add: mock_defs)
  have fields: "walletAddress (test_details v) = ''0x77''"
    "InvocationsSignerDetails.version (test_details v) = v"
    "InvocationsSignerDetails.cairoVersion (test_details v) = ''1''"
    "InvocationsSignerDetails.maxFee (test_details v) = Some (BigInt 1000)"
    "InvocationsSignerDetails.chainId (test_details v) = ''SN_GOERLI''"
    "InvocationsSignerDetails.nonce (test_details v) = Num 1"
    "InvocationsSignerDetails.accountDeploymentData (test_details v) = None"
    "InvocationsSignerDetails.resourceBounds (test_details v) = None"
    "InvocationsSignerDetails.tip (test_details v) = None"
    "InvocationsSignerDetails.paymasterData (test_details v) = None" for v
    by (simp_all add: test_details_def)
  note thm2 = signTransaction_version_dispatch
    [of "test_details ''0x2''" mock_library test_service test_sessionAuthorizationSignature
      test_sessionRequest "[]" False "[]" L1 L1, THEN conjunct1, rule_format, OF v2]
  note thm3 = signTransaction_version_dispatch
    [of "test_details ''0x3''" mock_library test_service test_sessionAuthorizationSignature
      test_sessionRequest "[]" False "[]" L1 L2, THEN conjunct2, THEN conjunct1, rule_format,
      OF conjI [OF v3(1) conjI [OF v3(2) v3(3)]]]
  note thm4 = signTransaction_version_dispatch
    [of "test_details ''0x4''" mock_library test_service test_sessionAuthorizationSignature
      test_sessionRequest "[]" False "[]" L1 L1, THEN conjunct2, THEN conjunct2, rule_format,
      OF conjI [OF v4(1) v4(2)]]
  show ?thesis
    using v2 v3(1) v4 thm2 thm3 thm4 by (simp add: fields h2 h3)
qed

section \<open>The compiled signature\<close>

text \<open>What a successful compilation went through, step by step.\<close>

lemma compileSessionTokenHelper_Inr:
  assumes "compileSessionTokenHelper lib this ses req cs ssig sas g c = Inr token"
  shows "\<exists>ps. getSessionProofs lib req cs = Inr ps \<and>
    token =
      \<lparr>session = ses, cache_authorization = c, session_authorization = sas,
       sessionSignature = getStarknetSignatureType (DappKey.publicKey (dappKey this)) ssig,
       guardianSignature =
         getStarknetSignatureType (BackendSignatureResponse.publicKey g)
           [BackendSignatureResponse.r g, BackendSignatureResponse.s g],
       proofs = ps\<rparr>"
  using assms by (auto simp: compileSessionTokenHelper_def split: sum.splits)

lemma compileSessionSignature_Inr:
  assumes "compileSessionSignature lib this sas req txh cs acct d c w = (Inr sig, w')"
  shows "\<exists>g token compiled.
    argentBackend this
      (cs, d, getSessionTypedData req (DappService.chainId this),
       signTxAndSession lib this txh acct (getSessionTypedData req (DappService.chainId this)) c,
       c) w = (Inr g, w') \<and>
    compileSessionTokenHelper lib this (compileSessionHelper lib req) req cs
      (signTxAndSession lib this txh acct (getSessionTypedData req (DappService.chainId this)) c)
      sas g c = Inr token \<and>
    CallData_compile lib (TokenArgs token) = Inr compiled \<and>
    sig = SESSION_MAGIC lib # compiled"
  using assms
  by (auto simp: compileSessionSignature_def Let_def split: prod.splits sum.splits)






text \<open>
  C8. The session token that \<^verbatim>\<open>compileSessionTokenHelper\<close> returns holds, in its field
  \<^verbatim>\<open>session_authorization\<close>, the authorization signature it was given: the same list, element
  for element. So does the token that a successful \<^verbatim>\<open>compileSessionSignature\<close> gives to
  \<^verbatim>\<open>CallData.compile\<close>.
\<close>

theorem session_authorization_passed_through:
  "(compileSessionTokenHelper lib this ses req cs ssig sas g c = Inr token \<longrightarrow>
      session_authorization token = sas) \<and>
   (compileSessionSignature lib this sas req txh cs acct d c w = (Inr sig, w') \<longrightarrow>
      (\<exists>g' token'.
         compileSessionTokenHelper lib this (compileSessionHelper lib req) req cs
           (signTxAndSession lib this txh acct
              (getSessionTypedData req (DappService.chainId this)) c)
           sas g' c = Inr token' \<and>
         CallData_compile lib (TokenArgs token') = Inr (tl sig) \<and>
         session_authorization token' = sas))"
proof (intro conjI impI)
  assume "compileSessionTokenHelper lib this ses req cs ssig sas g c = Inr token"
  from compileSessionTokenHelper_Inr [OF this]
  show "session_authorization token = sas" by auto
next
  assume "compileSessionSignature lib this sas req txh cs acct d c w = (Inr sig, w')"
  from compileSessionSignature_Inr [OF this] obtain g' token' compiled where
    helper: "compileSessionTokenHelper lib this (compileSessionHelper lib req) req cs
      (signTxAndSession lib this txh acct (getSessionTypedData req (DappService.chainId this)) c)
      sas g' c = Inr token'"
    and compiled: "CallData_compile lib (TokenArgs token') = Inr compiled"
    and sig: "sig = SESSION_MAGIC lib # compiled"
    by blast
  from compileSessionTokenHelper_Inr [OF helper]
  have "session_authorization token' = sas" by auto
  with helper compiled sig
  show "\<exists>g' token'.
         compileSessionTokenHelper lib this (compileSessionHelper lib req) req cs
           (signTxAndSession lib this txh acct
              (getSessionTypedData req (DappService.chainId this)) c)
           sas g' c = Inr token' \<and>
         CallData_compile lib (TokenArgs token') = Inr (tl sig) \<and>
         session_authorization token' = sas"
    by auto
qed

text \<open>Two runs with one call that the session allows.\<close>

lemma mock_token:
  "compileSessionTokenHelper mock_library test_service
     (compileSessionHelper mock_library test_sessionRequest) test_sessionRequest
     [test_call ''0xabc'' ''some_method''] [76, 5] test_sessionAuthorizationSignature
     \<lparr>BackendSignatureResponse.publicKey = ''0x123'',
      BackendSignatureResponse.r = 10, BackendSignatureResponse.s = 10\<rparr> True =
   Inr \<lparr>session = compileSessionHelper mock_library test_sessionRequest,
        cache_authorization = True,
        session_authorization = [''signature1'', ''signature2''],
        sessionSignature =
          (Starknet, \<lparr>pubkey = ''0x9b'', StarknetSignature.r = Some 76,
                      StarknetSignature.s = Some 5\<rparr>),
        guardianSignature =
          (Starknet, \<lparr>pubkey = ''0x123'', StarknetSignature.r = Some 10,
                      StarknetSignature.s = Some 10\<rparr>),
        proofs = [[]]\<rparr>"
  by (simp add: service_defs mock_defs Let_def)

lemma mock_compile_v2:
  "compileSessionSignature mock_library test_service test_sessionAuthorizationSignature
     test_sessionRequest ''0x7a'' [test_call ''0xabc'' ''some_method''] ''0x77''
     (test_details ''0x2'') True [] =
   (Inr [''0x73657373696f6e2d746f6b656e'', ''1234567890'',
       ''poseidon(poseidon(0xa11,0xabc,selector(some_method,),),0x0,)'',
       ''poseidon(0,0x74657374,4,)'', ''0x116d'', ''1'', ''2'',
       ''signature1'', ''signature2'', ''0'', ''0x9b'', ''49'', ''5'',
       ''0'', ''0x123'', ''10'', ''10'', ''1'', ''0''],
    [([test_call ''0xabc'' ''some_method''], test_details ''0x2'',
      \<lparr>domain_chainId = ''SN_GOERLI'', message = test_sessionRequest\<rparr>, [49, 5], True)])"
  by (simp add: service_defs mock_defs Let_def)

theorem session_authorization_passed_through_witness:
  "session_authorization
     \<lparr>session = compileSessionHelper mock_library test_sessionRequest,
      cache_authorization = True,
      session_authorization = [''signature1'', ''signature2''],
      sessionSignature =
        (Starknet, \<lparr>pubkey = ''0x9b'', StarknetSignature.r = Some 76,
                    StarknetSignature.s = Some 5\<rparr>),
      guardianSignature =
        (Starknet, \<lparr>pubkey = ''0x123'', StarknetSignature.r = Some 10,
                    StarknetSignature.s = Some 10\<rparr>),
      proofs = [[]]\<rparr> = test_sessionAuthorizationSignature \<and>
   (\<exists>g' token'.
      compileSessionTokenHelper mock_library test_service
        (compileSessionHelper mock_library test_sessionRequest) test_sessionRequest
        [test_call ''0xabc'' ''some_method'']
        (signTxAndSession mock_library test_service ''0x7a'' ''0x77''
           (getSessionTypedData test_sessionRequest (DappService.chainId test_service)) True)
        test_sessionAuthorizationSignature g' True = Inr token' \<and>
      CallData_compile mock_library (TokenArgs token') =
        Inr [''1234567890'',
          ''poseidon(poseidon(0xa11,0xabc,selector(some_method,),),0x0,)'',
          ''poseidon(0,0x74657374,4,)'', ''0x116d'', ''1'', ''2'',
          ''signature1'', ''signature2'', ''0'', ''0x9b'', ''49'', ''5'',
          ''0'', ''0x123'', ''10'', ''10'', ''1'', ''0''] \<and>
      session_authorization token' = test_sessionAuthorizationSignature)"
  using session_authorization_passed_through
    [THEN conjunct1, rule_format, OF mock_token]
    session_authorization_passed_through
    [THEN conjunct2, rule_format, OF mock_compile_v2]
  by simp

section \<open>The Merkle tree of the allowed methods\<close>

text \<open>
  C5. For every session request, the root in the compiled session is the root of
  \<^verbatim>\<open>buildMerkleTree\<close> of the request, and \<^verbatim>\<open>getSessionProofs\<close> asks that same tree (built from
  the same allowed methods in the same order) for the proof of each call. Within one successful
  \<^verbatim>\<open>compileSessionSignature\<close>, the token given to \<^verbatim>\<open>CallData.compile\<close> therefore holds the root
  of the tree its proofs come from.
\<close>

theorem root_is_root_of_proof_tree:
  "(let tree = buildMerkleTree lib req in
      allowed_methods_root (compileSessionHelper lib req) = root tree \<and>
      getSessionProofs lib req cs =
        map_err (\<lambda>call. getProof lib tree
                   (element_at (leaves tree) (allowedIndex req call)) (leaves tree)) cs) \<and>
   (compileSessionSignature lib this sas req txh cs acct d c w = (Inr sig, w') \<longrightarrow>
      (\<exists>g token.
         compileSessionTokenHelper lib this (compileSessionHelper lib req) req cs
           (signTxAndSession lib this txh acct
              (getSessionTypedData req (DappService.chainId this)) c)
           sas g c = Inr token \<and>
         CallData_compile lib (TokenArgs token) = Inr (tl sig) \<and>
         allowed_methods_root (session token) = root (buildMerkleTree lib req) \<and>
         map_err (\<lambda>call. getProof lib (buildMerkleTree lib req)
                    (element_at (leaves (buildMerkleTree lib req)) (allowedIndex req call))
                    (leaves (buildMerkleTree lib req))) cs = Inr (proofs token)))"
proof (intro conjI impI)
  show "let tree = buildMerkleTree lib req in
      allowed_methods_root (compileSessionHelper lib req) = root tree \<and>
      getSessionProofs lib req cs =
        map_err (\<lambda>call. getProof lib tree
                   (element_at (leaves tree) (allowedIndex req call)) (leaves tree)) cs"
    by (simp add: compileSessionHelper_def getSessionProofs_def Let_def)
next
  assume "compileSessionSignature lib this sas req txh cs acct d c w = (Inr sig, w')"
  from compileSessionSignature_Inr [OF this] obtain g token compiled where
    helper: "compileSessionTokenHelper lib this (compileSessionHelper lib req) req cs
      (signTxAndSession lib this txh acct (getSessionTypedData req (DappService.chainId this)) c)
      sas g c = Inr token"
    and compiled: "CallData_compile lib (TokenArgs token) = Inr compiled"
    and sig: "sig = SESSION_MAGIC lib # compiled"
    by blast
  from compileSessionTokenHelper_Inr [OF helper] obtain ps where
    ps: "getSessionProofs lib req cs = Inr ps"
    and fields: "session token = compileSessionHelper lib req" "proofs token = ps"
    by auto
  have root_eq: "allowed_methods_root (session token) = root (buildMerkleTree lib req)"
    using fields(1) by (simp add: compileSessionHelper_def Let_def)
  have proofs_eq: "map_err (\<lambda>call. getProof lib (buildMerkleTree lib req)
                    (element_at (leaves (buildMerkleTree lib req)) (allowedIndex req call))
                    (leaves (buildMerkleTree lib req))) cs = Inr (proofs token)"
    using ps fields(2) by (simp add: getSessionProofs_def Let_def)
  from helper compiled sig root_eq proofs_eq
  show "\<exists>g token.
         compileSessionTokenHelper lib this (compileSessionHelper lib req) req cs
           (signTxAndSession lib this txh acct
              (getSessionTypedData req (DappService.chainId this)) c)
           sas g c = Inr token \<and>
         CallData_compile lib (TokenArgs token) = Inr (tl sig) \<and>
         allowed_methods_root (session token) = root (buildMerkleTree lib req) \<and>
         map_err (\<lambda>call. getProof lib (buildMerkleTree lib req)
                    (element_at (leaves (buildMerkleTree lib req)) (allowedIndex req call))
                    (leaves (buildMerkleTree lib req))) cs = Inr (proofs token)"
    by auto
qed

lemma mock_compile_v3:
  "compileSessionSignature mock_library test_service test_sessionAuthorizationSignature
     test_sessionRequest ''0x7b'' [test_call ''0xabc'' ''some_method''] ''0x77''
     (test_details ''0x3'') False [] =
   (Inr [''0x73657373696f6e2d746f6b656e'', ''1234567890'',
       ''poseidon(poseidon(0xa11,0xabc,selector(some_method,),),0x0,)'',
       ''poseidon(0,0x74657374,4,)'', ''0x116d'', ''0'', ''2'',
       ''signature1'', ''signature2'', ''0'', ''0x9b'', ''49'', ''5'',
       ''0'', ''0x123'', ''10'', ''10'', ''1'', ''0''],
    [([test_call ''0xabc'' ''some_method''], test_details ''0x3'',
      \<lparr>domain_chainId = ''SN_GOERLI'', message = test_sessionRequest\<rparr>, [49, 5], False)])"
  by (simp add: service_defs mock_defs Let_def)

theorem root_is_root_of_proof_tree_witness:
  "\<exists>g token.
     compileSessionTokenHelper mock_library test_service
       (compileSessionHelper mock_library test_sessionRequest) test_sessionRequest
       [test_call ''0xabc'' ''some_method'']
       (signTxAndSession mock_library test_service ''0x7b'' ''0x77''
          (getSessionTypedData test_sessionRequest (DappService.chainId test_service)) False)
       test_sessionAuthorizationSignature g False = Inr token \<and>
     allowed_methods_root (session token) =
       ''poseidon(poseidon(0xa11,0xabc,selector(some_method,),),0x0,)'' \<and>
     root (buildMerkleTree mock_library test_sessionRequest) =
       ''poseidon(poseidon(0xa11,0xabc,selector(some_method,),),0x0,)'' \<and>
     proofs token = [[]]"
proof -
  have r: "root (buildMerkleTree mock_library test_sessionRequest) =
       ''poseidon(poseidon(0xa11,0xabc,selector(some_method,),),0x0,)''"
    by (simp add: service_defs mock_defs Let_def)
  have p: "map_err (\<lambda>call. getProof mock_library (buildMerkleTree mock_library test_sessionRequest)
                    (element_at (leaves (buildMerkleTree mock_library test_sessionRequest))
                       (allowedIndex test_sessionRequest call))
                    (leaves (buildMerkleTree mock_library test_sessionRequest)))
             [test_call ''0xabc'' ''some_method''] = Inr [[]]"
    by (simp add: service_defs mock_defs Let_def)
  from root_is_root_of_proof_tree [THEN conjunct2, rule_format, OF mock_compile_v3]
  obtain g token where
    "compileSessionTokenHelper mock_library test_service
       (compileSessionHelper mock_library test_sessionRequest) test_sessionRequest
       [test_call ''0xabc'' ''some_method'']
       (signTxAndSession mock_library test_service ''0x7b'' ''0x77''
          (getSessionTypedData test_sessionRequest (DappService.chainId test_service)) False)
       test_sessionAuthorizationSignature g False = Inr token"
    "allowed_methods_root (session token) =
       root (buildMerkleTree mock_library test_sessionRequest)"
    "Inr [[]] = (Inr (proofs token) :: error + string list list)"
    unfolding p by blast
  then show ?thesis using r by auto
qed






section \<open>The cache flag in the signed hash\<close>

text \<open>
  X6. The combined hash is the Poseidon hash of a list of three elements, and the two lists
  for \<^verbatim>\<open>cacheAuthorisation = false\<close> and \<^verbatim>\<open>= true\<close> agree in their first two elements and
  differ in the third, 0 against 1. (Whether the two hashes differ is then a matter of the
  Poseidon hash alone.)
\<close>

theorem cache_flag_is_third_hashed_element:
  "sessionWithTxHash lib txh acct td c =
     computePoseidonHashOnElements lib (sessionWithTxHash_elements lib txh acct td c) \<and>
   sessionWithTxHash_elements lib txh acct td False =
     [Str txh, Str (getMessageHash lib td acct), Num 0] \<and>
   sessionWithTxHash_elements lib txh acct td True =
     [Str txh, Str (getMessageHash lib td acct), Num 1] \<and>
   sessionWithTxHash_elements lib txh acct td False \<noteq>
     sessionWithTxHash_elements lib txh acct td True"
  by (simp add: sessionWithTxHash_def sessionWithTxHash_elements_def unary_plus_def)


section \<open>The session accounts\<close>

lemmas account_defs =
  invokeParams_def submissionV5_def extendCallsBySession_def extendCallsBySessionV5_def
  sessionToCall_def sessionToCallV5_def sessionCallObject_def asSessionCall_def
  simulatedMaxFee_def suggestedMaxFee_fallback_def try_catch_def nullish_or_def
  maxFee_toString_def signerDetails_def await_def resolve_def reject_def settle_def
  OFFCHAIN_SESSION_ENTRYPOINT_def element_at_def

lemmas account_mock_defs =
  mock_library_def show_int_def test_account_def test_accountV5_def test_call_def tick_def

lemma sessionToCall_Inr:
  assumes "sessionToCall lib this dappSignature det w = (Inr call, w')"
  shows "\<exists>sg fd signer compiled.
    formatSignature lib (OffchainSessionAccount.sessionSignature this) = Inr sg \<and>
    formatSignature lib dappSignature = Inr fd \<and>
    signer_getPubKey this w = (Inr signer, w') \<and>
    CallData_compile lib (ObjectArgs (sessionCallObject signer fd sg)) = Inr compiled \<and>
    call = \<lparr>contractAddress = address this,
            Call.entrypoint = OFFCHAIN_SESSION_ENTRYPOINT,
            Call.calldata = map Str compiled,
            OffchainSessionCall.offchainSessionDetails = Some det\<rparr>"
  using assms
  by (auto simp: sessionToCall_def await_def settle_def resolve_def
      split: prod.splits sum.splits)

lemma sessionToCallV5_Inr:
  assumes "sessionToCallV5 lib this dappSignature w = (Inr call, w')"
  shows "\<exists>sg fd signer compiled.
    formatSignature lib (OffchainSessionAccountV5.sessionSignature this) = Inr sg \<and>
    formatSignature lib dappSignature = Inr fd \<and>
    signer_getPubKey this w = (Inr signer, w') \<and>
    CallData_compile lib (ObjectArgs (sessionCallObject signer fd sg)) = Inr compiled \<and>
    call = \<lparr>contractAddress = address this,
            Call.entrypoint = OFFCHAIN_SESSION_ENTRYPOINT,
            Call.calldata = map Str compiled,
            OffchainSessionCall.offchainSessionDetails = None\<rparr>"
  using assms
  by (auto simp: sessionToCallV5_def await_def settle_def resolve_def
      split: prod.splits sum.splits)

lemma extendCallsBySession_Inr:
  assumes "extendCallsBySession lib this cs dappSignature det w = (Inr ext, w')"
  shows "\<exists>sessionCall.
    sessionToCall lib this dappSignature det w = (Inr sessionCall, w') \<and>
    ext = sessionCall # map asSessionCall cs"
  using assms
  by (auto simp: extendCallsBySession_def await_def resolve_def split: prod.splits sum.splits)

lemma extendCallsBySessionV5_Inr:
  assumes "extendCallsBySessionV5 lib this cs dappSignature w = (Inr ext, w')"
  shows "\<exists>sessionCall.
    sessionToCallV5 lib this dappSignature w = (Inr sessionCall, w') \<and>
    ext = sessionCall # map asSessionCall cs"
  using assms
  by (auto simp: extendCallsBySessionV5_def await_def resolve_def split: prod.splits sum.splits)

lemma truncate_asSessionCall: "Call.truncate (asSessionCall k) = k"
  by (simp add: asSessionCall_def Call.truncate_def Call.extend_def)

lemma invokeParams_Inr:
  assumes "invokeParams lib this cs abis td w = (Inr params, w')"
  shows "\<exists>sd dappSignature det w1 w2 w3 ext.
    signer_signTransaction this (ensureArray lib cs) sd abis w1 = (Inr dappSignature, w2) \<and>
    extendCallsBySession lib this (ensureArray lib cs) dappSignature det w3 = (Inr ext, w') \<and>
    calls params =
      map (\<lambda>t. \<lparr>contract_address = contractAddress t,
                  InvokeCall.entrypoint = Call.entrypoint t,
                  InvokeCall.calldata = Call.calldata t,
                  InvokeCall.offchainSessionDetails =
                    OffchainSessionCall.offchainSessionDetails t\<rparr>) ext"
  using assms unfolding invokeParams_def Let_def
  apply (elim await_InrE resolve_InrE)
  apply hypsubst
  apply (intro exI conjI)
    apply assumption
   apply assumption
  apply simp
  done

lemma submissionV5_Inr:
  assumes "submissionV5 lib this cs aod td w = (Inr (sent, det), w')"
  shows "\<exists>sd dappSignature w1 w2 w3 w4.
    signer_signTransaction this (ensureArray lib cs) sd None w1 = (Inr dappSignature, w2) \<and>
    extendCallsBySessionV5 lib this (ensureArray lib cs) dappSignature w3 = (Inr sent, w4)"
  using assms unfolding submissionV5_def Let_def
  apply (elim await_InrE resolve_InrE)
  apply (intro exI conjI)
   apply assumption
  apply simp
  done

text \<open>
  C10, as the code has it. Whenever \<^verbatim>\<open>execute\<close> of \<^verbatim>\<open>OffchainSessionAccount\<close> reaches the request
  to the wallet (or \<^verbatim>\<open>execute\<close> of the V5 account the call of \<^verbatim>\<open>this.account.execute\<close>), the
  list of calls it submits is one longer than the list of calls it was given. Its first call
  has the address of the session account, the entrypoint \<^verbatim>\<open>use_offchain_session\<close>, and as
  calldata what \<^verbatim>\<open>CallData.compile\<close> returns for seven values: the public key of the signer
  first, then elements 0 and 1 of the formatted dapp signature, then elements 0 to 3 of the
  formatted session signature. The calls it was given follow, in their order.
\<close>

theorem session_call_is_prepended:
  "(invokeParams lib this cs abis td w = (Inr params, w') \<longrightarrow>
      (\<exists>sd dappSignature w1 w2 signer w3 w4 fd sg compiled det.
         signer_signTransaction this (ensureArray lib cs) sd abis w1 = (Inr dappSignature, w2) \<and>
         signer_getPubKey this w3 = (Inr signer, w4) \<and>
         formatSignature lib dappSignature = Inr fd \<and>
         formatSignature lib (OffchainSessionAccount.sessionSignature this) = Inr sg \<and>
         CallData_compile lib
           (ObjectArgs
             [(''signer'', Some signer),
              (''token1'', element_at fd 0), (''token2'', element_at fd 1),
              (''token3'', element_at sg 0), (''token4'', element_at sg 1),
              (''token5'', element_at sg 2), (''token6'', element_at sg 3)]) = Inr compiled \<and>
         calls params =
           \<lparr>contract_address = address this,
            InvokeCall.entrypoint = ''use_offchain_session'',
            InvokeCall.calldata = map Str compiled,
            InvokeCall.offchainSessionDetails = Some det\<rparr> #
           map (\<lambda>k. \<lparr>contract_address = contractAddress k,
                       InvokeCall.entrypoint = Call.entrypoint k,
                       InvokeCall.calldata = Call.calldata k,
                       InvokeCall.offchainSessionDetails = None\<rparr>)
             (ensureArray lib cs) \<and>
         length (calls params) = length (ensureArray lib cs) + 1)) \<and>
   (submissionV5 lib this5 cs aod td w5 = (Inr (sent, det5), w5') \<longrightarrow>
      (\<exists>sd dappSignature w1 w2 signer w3 w4 fd sg compiled.
         signer_signTransaction this5 (ensureArray lib cs) sd None w1 = (Inr dappSignature, w2) \<and>
         signer_getPubKey this5 w3 = (Inr signer, w4) \<and>
         formatSignature lib dappSignature = Inr fd \<and>
         formatSignature lib (OffchainSessionAccountV5.sessionSignature this5) = Inr sg \<and>
         CallData_compile lib
           (ObjectArgs
             [(''signer'', Some signer),
              (''token1'', element_at fd 0), (''token2'', element_at fd 1),
              (''token3'', element_at sg 0), (''token4'', element_at sg 1),
              (''token5'', element_at sg 2), (''token6'', element_at sg 3)]) = Inr compiled \<and>
         sent =
           \<lparr>contractAddress = address this5,
            Call.entrypoint = ''use_offchain_session'',
            Call.calldata = map Str compiled,
            OffchainSessionCall.offchainSessionDetails = None\<rparr> #
           map asSessionCall (ensureArray lib cs) \<and>
         map Call.truncate (tl sent) = ensureArray lib cs \<and>
         length sent = length (ensureArray lib cs) + 1))"
proof (intro conjI impI)
  assume "invokeParams lib this cs abis td w = (Inr params, w')"
  from invokeParams_Inr [OF this] obtain sd dappSignature det w1 w2 w3 ext where
    signed: "signer_signTransaction this (ensureArray lib cs) sd abis w1 = (Inr dappSignature, w2)"
    and ext: "extendCallsBySession lib this (ensureArray lib cs) dappSignature det w3 =
      (Inr ext, w')"
    and params: "calls params =
      map (\<lambda>t. \<lparr>contract_address = contractAddress t,
                  InvokeCall.entrypoint = Call.entrypoint t,
                  InvokeCall.calldata = Call.calldata t,
                  InvokeCall.offchainSessionDetails =
                    OffchainSessionCall.offchainSessionDetails t\<rparr>) ext"
    by blast
  from extendCallsBySession_Inr [OF ext] obtain sessionCall where
    call: "sessionToCall lib this dappSignature det w3 = (Inr sessionCall, w')"
    and ext_eq: "ext = sessionCall # map asSessionCall (ensureArray lib cs)"
    by blast
  from sessionToCall_Inr [OF call] obtain sg fd signer compiled where
    sg: "formatSignature lib (OffchainSessionAccount.sessionSignature this) = Inr sg"
    and fd: "formatSignature lib dappSignature = Inr fd"
    and pk: "signer_getPubKey this w3 = (Inr signer, w')"
    and compiled: "CallData_compile lib (ObjectArgs (sessionCallObject signer fd sg)) =
      Inr compiled"
    and call_eq: "sessionCall =
      \<lparr>contractAddress = address this,
       Call.entrypoint = OFFCHAIN_SESSION_ENTRYPOINT,
       Call.calldata = map Str compiled,
       OffchainSessionCall.offchainSessionDetails = Some det\<rparr>"
    by blast
  have list: "calls params =
           \<lparr>contract_address = address this,
            InvokeCall.entrypoint = ''use_offchain_session'',
            InvokeCall.calldata = map Str compiled,
            InvokeCall.offchainSessionDetails = Some det\<rparr> #
           map (\<lambda>k. \<lparr>contract_address = contractAddress k,
                       InvokeCall.entrypoint = Call.entrypoint k,
                       InvokeCall.calldata = Call.calldata k,
                       InvokeCall.offchainSessionDetails = None\<rparr>)
             (ensureArray lib cs)"
    by (simp add: params ext_eq call_eq OFFCHAIN_SESSION_ENTRYPOINT_def asSessionCall_def
        Call.extend_def OffchainSessionCall.fields_def o_def)
  then have len: "length (calls params) = length (ensureArray lib cs) + 1" by simp
  from signed pk fd sg compiled list len
  show "\<exists>sd dappSignature w1 w2 signer w3 w4 fd sg compiled det.
         signer_signTransaction this (ensureArray lib cs) sd abis w1 = (Inr dappSignature, w2) \<and>
         signer_getPubKey this w3 = (Inr signer, w4) \<and>
         formatSignature lib dappSignature = Inr fd \<and>
         formatSignature lib (OffchainSessionAccount.sessionSignature this) = Inr sg \<and>
         CallData_compile lib
           (ObjectArgs
             [(''signer'', Some signer),
              (''token1'', element_at fd 0), (''token2'', element_at fd 1),
              (''token3'', element_at sg 0), (''token4'', element_at sg 1),
              (''token5'', element_at sg 2), (''token6'', element_at sg 3)]) = Inr compiled \<and>
         calls params =
           \<lparr>contract_address = address this,
            InvokeCall.entrypoint = ''use_offchain_session'',
            InvokeCall.calldata = map Str compiled,
            InvokeCall.offchainSessionDetails = Some det\<rparr> #
           map (\<lambda>k. \<lparr>contract_address = contractAddress k,
                       InvokeCall.entrypoint = Call.entrypoint k,
                       InvokeCall.calldata = Call.calldata k,
                       InvokeCall.offchainSessionDetails = None\<rparr>)
             (ensureArray lib cs) \<and>
         length (calls params) = length (ensureArray lib cs) + 1"
    unfolding sessionCallObject_def by blast
next
  assume "submissionV5 lib this5 cs aod td w5 = (Inr (sent, det5), w5')"
  from submissionV5_Inr [OF this] obtain sd dappSignature w1 w2 w3 w4 where
    signed: "signer_signTransaction this5 (ensureArray lib cs) sd None w1 =
      (Inr dappSignature, w2)"
    and ext: "extendCallsBySessionV5 lib this5 (ensureArray lib cs) dappSignature w3 =
      (Inr sent, w4)"
    by blast
  from extendCallsBySessionV5_Inr [OF ext] obtain sessionCall where
    call: "sessionToCallV5 lib this5 dappSignature w3 = (Inr sessionCall, w4)"
    and sent_eq: "sent = sessionCall # map asSessionCall (ensureArray lib cs)"
    by blast
  from sessionToCallV5_Inr [OF call] obtain sg fd signer compiled where
    sg: "formatSignature lib (OffchainSessionAccountV5.sessionSignature this5) = Inr sg"
    and fd: "formatSignature lib dappSignature = Inr fd"
    and pk: "signer_getPubKey this5 w3 = (Inr signer, w4)"
    and compiled: "CallData_compile lib (ObjectArgs (sessionCallObject signer fd sg)) =
      Inr compiled"
    and call_eq: "sessionCall =
      \<lparr>contractAddress = address this5,
       Call.entrypoint = OFFCHAIN_SESSION_ENTRYPOINT,
       Call.calldata = map Str compiled,
       OffchainSessionCall.offchainSessionDetails = None\<rparr>"
    by blast
  have list: "sent =
           \<lparr>contractAddress = address this5,
            Call.entrypoint = ''use_offchain_session'',
            Call.calldata = map Str compiled,
            OffchainSessionCall.offchainSessionDetails = None\<rparr> #
           map asSessionCall (ensureArray lib cs)"
    by (simp add: sent_eq call_eq OFFCHAIN_SESSION_ENTRYPOINT_def)
  have rest: "map Call.truncate (tl sent) = ensureArray lib cs"
    by (simp add: sent_eq o_def truncate_asSessionCall)
  have len: "length sent = length (ensureArray lib cs) + 1"
    by (simp add: sent_eq)
  from signed pk fd sg compiled list rest len
  show "\<exists>sd dappSignature w1 w2 signer w3 w4 fd sg compiled.
         signer_signTransaction this5 (ensureArray lib cs) sd None w1 = (Inr dappSignature, w2) \<and>
         signer_getPubKey this5 w3 = (Inr signer, w4) \<and>
         formatSignature lib dappSignature = Inr fd \<and>
         formatSignature lib (OffchainSessionAccountV5.sessionSignature this5) = Inr sg \<and>
         CallData_compile lib
           (ObjectArgs
             [(''signer'', Some signer),
              (''token1'', element_at fd 0), (''token2'', element_at fd 1),
              (''token3'', element_at sg 0), (''token4'', element_at sg 1),
              (''token5'', element_at sg 2), (''token6'', element_at sg 3)]) = Inr compiled \<and>
         sent =
           \<lparr>contractAddress = address this5,
            Call.entrypoint = ''use_offchain_session'',
            Call.calldata = map Str compiled,
            OffchainSessionCall.offchainSessionDetails = None\<rparr> #
           map asSessionCall (ensureArray lib cs) \<and>
         map Call.truncate (tl sent) = ensureArray lib cs \<and>
         length sent = length (ensureArray lib cs) + 1"
    unfolding sessionCallObject_def by blast
qed

text \<open>One call through each account, with collaborators that answer at once.\<close>

lemma mock_invokeParams:
  "invokeParams mock_library test_account (ManyCalls [test_call ''0xabc'' ''some_method''])
     None \<lparr>InvocationsDetails.nonce = None, InvocationsDetails.maxFee = None\<rparr> 0 =
   (Inr \<lparr>calls =
         [\<lparr>contract_address = ''0x5e55'',
           InvokeCall.entrypoint = ''use_offchain_session'',
           InvokeCall.calldata =
             [Str ''0x9b'', Str ''0xd0'', Str ''0xd1'', Str ''0xa'', Str ''0xb'', Str ''0xc'',
              Str ''0xd''],
           InvokeCall.offchainSessionDetails =
             Some \<lparr>OffchainSessionDetails.nonce = ''0x7'',
                   OffchainSessionDetails.maxFee = ''1500'',
                   OffchainSessionDetails.version = ''0x1''\<rparr>\<rparr>,
          \<lparr>contract_address = ''0xabc'', InvokeCall.entrypoint = ''some_method'',
           InvokeCall.calldata = [Str ''0x123''],
           InvokeCall.offchainSessionDetails = None\<rparr>]\<rparr>,
    5)"
  by (simp add: account_defs account_mock_defs Let_def Call.extend_def
      OffchainSessionCall.fields_def)

lemma mock_submissionV5:
  "submissionV5 mock_library test_accountV5 (OneCall (test_call ''0xabc'' ''some_method''))
     None \<lparr>InvocationsDetails.nonce = None, InvocationsDetails.maxFee = None\<rparr> 0 =
   (Inr ([\<lparr>contractAddress = ''0x5e55'',
           Call.entrypoint = ''use_offchain_session'',
           Call.calldata =
             [Str ''0x9b'', Str ''0xd0'', Str ''0xd1'', Str ''0xa'', Str ''0xb'', Str ''0xc'',
              Str ''0xd''],
           OffchainSessionCall.offchainSessionDetails = None\<rparr>,
          \<lparr>contractAddress = ''0xabc'', Call.entrypoint = ''some_method'',
           Call.calldata = [Str ''0x123''],
           OffchainSessionCall.offchainSessionDetails = None\<rparr>],
         \<lparr>OffchainSessionDetails.nonce = ''0x7'',
          OffchainSessionDetails.maxFee = ''1500'',
          OffchainSessionDetails.version = ''0x1''\<rparr>),
    5)"
  by (simp add: account_defs account_mock_defs Let_def Call.extend_def
      OffchainSessionCall.fields_def)

theorem session_call_is_prepended_witness:
  "(\<exists>params w'.
      invokeParams mock_library test_account (ManyCalls [test_call ''0xabc'' ''some_method''])
        None \<lparr>InvocationsDetails.nonce = None, InvocationsDetails.maxFee = None\<rparr> 0 =
        (Inr params, w') \<and>
      length (calls params) =
        length (ensureArray mock_library (ManyCalls [test_call ''0xabc'' ''some_method''])) + 1 \<and>
      (\<exists>compiled det.
         calls params =
           \<lparr>contract_address = address test_account,
            InvokeCall.entrypoint = ''use_offchain_session'',
            InvokeCall.calldata = map Str compiled,
            InvokeCall.offchainSessionDetails = Some det\<rparr> #
           map (\<lambda>k. \<lparr>contract_address = contractAddress k,
                       InvokeCall.entrypoint = Call.entrypoint k,
                       InvokeCall.calldata = Call.calldata k,
                       InvokeCall.offchainSessionDetails = None\<rparr>)
             (ensureArray mock_library (ManyCalls [test_call ''0xabc'' ''some_method''])))) \<and>
   (\<exists>sent det w'.
      submissionV5 mock_library test_accountV5 (OneCall (test_call ''0xabc'' ''some_method''))
        None \<lparr>InvocationsDetails.nonce = None, InvocationsDetails.maxFee = None\<rparr> 0 =
        (Inr (sent, det), w') \<and>
      length sent =
        length (ensureArray mock_library (OneCall (test_call ''0xabc'' ''some_method''))) + 1 \<and>
      map Call.truncate (tl sent) =
        ensureArray mock_library (OneCall (test_call ''0xabc'' ''some_method'')) \<and>
      (\<exists>compiled.
         sent =
           \<lparr>contractAddress = address test_accountV5,
            Call.entrypoint = ''use_offchain_session'',
            Call.calldata = map Str compiled,
            OffchainSessionCall.offchainSessionDetails = None\<rparr> #
           map asSessionCall
             (ensureArray mock_library (OneCall (test_call ''0xabc'' ''some_method'')))))"
proof (intro conjI)
  from session_call_is_prepended [THEN conjunct1, rule_format, OF mock_invokeParams]
  show "\<exists>params w'.
      invokeParams mock_library test_account (ManyCalls [test_call ''0xabc'' ''some_method''])
        None \<lparr>InvocationsDetails.nonce = None, InvocationsDetails.maxFee = None\<rparr> 0 =
        (Inr params, w') \<and>
      length (calls params) =
        length (ensureArray mock_library (ManyCalls [test_call ''0xabc'' ''some_method''])) + 1 \<and>
      (\<exists>compiled det.
         calls params =
           \<lparr>contract_address = address test_account,
            InvokeCall.entrypoint = ''use_offchain_session'',
            InvokeCall.calldata = map Str compiled,
            InvokeCall.offchainSessionDetails = Some det\<rparr> #
           map (\<lambda>k. \<lparr>contract_address = contractAddress k,
                       InvokeCall.entrypoint = Call.entrypoint k,
                       InvokeCall.calldata = Call.calldata k,
                       InvokeCall.offchainSessionDetails = None\<rparr>)
             (ensureArray mock_library (ManyCalls [test_call ''0xabc'' ''some_method''])))"
    apply (elim exE conjE)
    apply (rule exI, rule exI)
    apply (intro conjI)
      apply (rule mock_invokeParams)
     apply assumption
    apply (rule exI, rule exI)
    apply assumption
    done
next
  from session_call_is_prepended [THEN conjunct2, rule_format, OF mock_submissionV5]
  show "\<exists>sent det w'.
      submissionV5 mock_library test_accountV5 (OneCall (test_call ''0xabc'' ''some_method''))
        None \<lparr>InvocationsDetails.nonce = None, InvocationsDetails.maxFee = None\<rparr> 0 =
        (Inr (sent, det), w') \<and>
      length sent =
        length (ensureArray mock_library (OneCall (test_call ''0xabc'' ''some_method''))) + 1 \<and>
      map Call.truncate (tl sent) =
        ensureArray mock_library (OneCall (test_call ''0xabc'' ''some_method'')) \<and>
      (\<exists>compiled.
         sent =
           \<lparr>contractAddress = address test_accountV5,
            Call.entrypoint = ''use_offchain_session'',
            Call.calldata = map Str compiled,
            OffchainSessionCall.offchainSessionDetails = None\<rparr> #
           map asSessionCall
             (ensureArray mock_library (OneCall (test_call ''0xabc'' ''some_method''))))"
    apply (elim exE conjE)
    apply (rule exI, rule exI, rule exI)
    apply (intro conjI)
       apply (rule mock_submissionV5)
      apply assumption
     apply assumption
    apply (rule exI)
    apply assumption
    done
qed

text \<open>
  The calldata of the session call does not consist of the dapp signature followed by the
  session signature: the object that is compiled has seven keys, the first of them
  \<^verbatim>\<open>signer\<close>, and in the run above the calldata has seven elements, the first the public key.
\<close>

theorem session_calldata_counterexample:
  "map fst (sessionCallObject ''0x9b'' [''0xd0'', ''0xd1''] [''0xa'', ''0xb'', ''0xc'', ''0xd'']) =
     [''signer'', ''token1'', ''token2'', ''token3'', ''token4'', ''token5'', ''token6''] \<and>
   map snd (sessionCallObject ''0x9b'' [''0xd0'', ''0xd1''] [''0xa'', ''0xb'', ''0xc'', ''0xd'']) \<noteq>
     map Some ([''0xd0'', ''0xd1''] @ [''0xa'', ''0xb'', ''0xc'', ''0xd'']) \<and>
   InvokeCall.calldata
     (hd (calls (projr (fst
        (invokeParams mock_library test_account
           (ManyCalls [test_call ''0xabc'' ''some_method'']) None
           \<lparr>InvocationsDetails.nonce = None, InvocationsDetails.maxFee = None\<rparr> 0))))) =
     map Str [''0x9b'', ''0xd0'', ''0xd1'', ''0xa'', ''0xb'', ''0xc'', ''0xd''] \<and>
   InvokeCall.calldata
     (hd (calls (projr (fst
        (invokeParams mock_library test_account
           (ManyCalls [test_call ''0xabc'' ''some_method'']) None
           \<lparr>InvocationsDetails.nonce = None, InvocationsDetails.maxFee = None\<rparr> 0))))) \<noteq>
     map Str ([''0xd0'', ''0xd1''] @ [''0xa'', ''0xb'', ''0xc'', ''0xd''])"
  by (simp add: mock_invokeParams sessionCallObject_def element_at_def)


section \<open>Further properties of the service\<close>

lemma findIndex_from_first:
  assumes "\<exists>x \<in> set xs. p x"
  shows "p (xs ! nat (findIndex_from p xs i - i)) \<and>
    (\<forall>j < nat (findIndex_from p xs i - i). \<not> p (xs ! j))"
  using assms
proof (induction xs arbitrary: i)
  case Nil
  then show ?case by simp
next
  case (Cons x xs)
  show ?case
  proof (cases "p x")
    case True
    then show ?thesis by simp
  next
    case False
    with Cons.prems have ex: "\<exists>x \<in> set xs. p x" by simp
    from findIndex_from_found [OF ex, of "i + 1"]
    have pos: "i + 1 \<le> findIndex_from p xs (i + 1)" by simp
    then have shift: "nat (findIndex_from p xs (i + 1) - i) =
      Suc (nat (findIndex_from p xs (i + 1) - (i + 1)))"
      by simp
    from Cons.IH [OF ex, of "i + 1"] have
      hit: "p (xs ! nat (findIndex_from p xs (i + 1) - (i + 1)))" and
      miss: "\<forall>j < nat (findIndex_from p xs (i + 1) - (i + 1)). \<not> p (xs ! j)"
      by simp_all
    show ?thesis
    proof (intro conjI allI impI)
      show "p ((x # xs) ! nat (findIndex_from p (x # xs) i - i))"
        using False hit shift by simp
    next
      fix j assume "j < nat (findIndex_from p (x # xs) i - i)"
      then have "j < Suc (nat (findIndex_from p xs (i + 1) - (i + 1)))"
        using False shift by simp
      then show "\<not> p ((x # xs) ! j)"
        using False miss by (cases j) simp_all
    qed
  qed
qed

text \<open>
  X1. For a call that some allowed method matches, the index \<^verbatim>\<open>getSessionProofs\<close> finds is
  within the allowed methods, the method at that index matches the call, and no earlier method
  does: the proof asked for is that of the first matching method.
\<close>

theorem allowedIndex_first_match:
  assumes "\<exists>m \<in> set (allowed_methods req).
     Contract_Address m = contractAddress call \<and> selector m = Call.entrypoint call"
  shows "0 \<le> allowedIndex req call \<and>
    allowedIndex req call < int (length (allowed_methods req)) \<and>
    Contract_Address (allowed_methods req ! nat (allowedIndex req call)) = contractAddress call \<and>
    selector (allowed_methods req ! nat (allowedIndex req call)) = Call.entrypoint call \<and>
    (\<forall>j < nat (allowedIndex req call).
       \<not> (Contract_Address (allowed_methods req ! j) = contractAddress call \<and>
          selector (allowed_methods req ! j) = Call.entrypoint call))"
proof -
  let ?p = "\<lambda>m. Contract_Address m = contractAddress call \<and> selector m = Call.entrypoint call"
  have idx: "allowedIndex req call = findIndex_from ?p (allowed_methods req) 0"
    by (simp add: allowedIndex_def findIndex_def)
  from findIndex_from_found [OF assms, of 0] findIndex_from_first [OF assms, of 0]
  show ?thesis unfolding idx by simp
qed

text \<open>A session that lists the method of the call second and third: the index is 1.\<close>

theorem allowedIndex_first_match_witness:
  "allowedIndex
     (test_sessionRequest\<lparr>allowed_methods :=
        [\<lparr>Contract_Address = ''0xdef'', selector = ''other''\<rparr>,
         \<lparr>Contract_Address = ''0xabc'', selector = ''some_method''\<rparr>,
         \<lparr>Contract_Address = ''0xabc'', selector = ''some_method''\<rparr>]\<rparr>)
     (test_call ''0xabc'' ''some_method'') = 1"
proof -
  let ?req = "test_sessionRequest\<lparr>allowed_methods :=
        [\<lparr>Contract_Address = ''0xdef'', selector = ''other''\<rparr>,
         \<lparr>Contract_Address = ''0xabc'', selector = ''some_method''\<rparr>,
         \<lparr>Contract_Address = ''0xabc'', selector = ''some_method''\<rparr>]\<rparr>"
  have ex: "\<exists>m \<in> set (allowed_methods ?req).
     Contract_Address m = contractAddress (test_call ''0xabc'' ''some_method'') \<and>
     selector m = Call.entrypoint (test_call ''0xabc'' ''some_method'')"
    by (simp add: test_call_def)
  from allowedIndex_first_match [OF ex]
  have "0 \<le> allowedIndex ?req (test_call ''0xabc'' ''some_method'')" by blast
  then show ?thesis
    by (simp add: allowedIndex_def findIndex_def test_call_def)
qed

text \<open>
  X2. When the backend fails to co-sign, \<^verbatim>\<open>compileSessionSignature\<close> fails with the backend's
  error: the failure is surfaced, not swallowed.
\<close>

theorem backend_failure_is_surfaced:
  assumes "argentBackend this
      (cs, d, getSessionTypedData req (DappService.chainId this),
       signTxAndSession lib this txh acct (getSessionTypedData req (DappService.chainId this)) c,
       c) w = (Inl e, w')"
  shows "compileSessionSignature lib this sas req txh cs acct d c w = (Inl e, w')"
  using assms by (simp add: compileSessionSignature_def Let_def)

text \<open>A backend that records the request and rejects it.\<close>

theorem backend_failure_is_surfaced_witness:
  "compileSessionSignature mock_library
     (test_service\<lparr>argentBackend := \<lambda>request w. (Inl (Error ''rejected''), w @ [request])\<rparr>)
     test_sessionAuthorizationSignature test_sessionRequest ''0x7a'' [] ''0x77''
     (test_details ''0x2'') False [] =
   (Inl (Error ''rejected''),
    [([], test_details ''0x2'', getSessionTypedData test_sessionRequest ''SN_GOERLI'',
      signTxAndSession mock_library
        (test_service\<lparr>argentBackend := \<lambda>request w. (Inl (Error ''rejected''), w @ [request])\<rparr>)
        ''0x7a'' ''0x77'' (getSessionTypedData test_sessionRequest ''SN_GOERLI'') False,
      False)])"
proof -
  let ?svc = "test_service\<lparr>argentBackend := \<lambda>request w. (Inl (Error ''rejected''), w @ [request])\<rparr>"
  have chain: "DappService.chainId ?svc = ''SN_GOERLI''"
    by (simp add: test_service_def)
  have "argentBackend ?svc
      ([], test_details ''0x2'', getSessionTypedData test_sessionRequest (DappService.chainId ?svc),
       signTxAndSession mock_library ?svc ''0x7a'' ''0x77''
         (getSessionTypedData test_sessionRequest (DappService.chainId ?svc)) False,
       False) [] =
     (Inl (Error ''rejected''),
      [([], test_details ''0x2'', getSessionTypedData test_sessionRequest ''SN_GOERLI'',
        signTxAndSession mock_library ?svc ''0x7a'' ''0x77''
          (getSessionTypedData test_sessionRequest ''SN_GOERLI'') False,
        False)])"
    by (simp add: chain)
  from backend_failure_is_surfaced [OF this] show ?thesis .
qed

text \<open>
  X3. Details with a V3 version that lack one of the two data-availability modes make
  \<^verbatim>\<open>signTransaction\<close> fail with the error of \<^verbatim>\<open>stark.intDAM\<close>, before the backend is called.
\<close>

theorem v3_without_mode_fails:
  assumes "InvocationsSignerDetails.version d \<in> set ETransactionVersion3"
    and "InvocationsSignerDetails.nonceDataAvailabilityMode d = None \<or>
         InvocationsSignerDetails.feeDataAvailabilityMode d = None"
  shows "signTransaction lib this sas req cs d c w = (Inl (Error ''EDAM conversion''), w)"
proof -
  from assms(1) have not_v2: "InvocationsSignerDetails.version d \<notin> set ETransactionVersion2"
    by (auto simp: ETransactionVersion2_def ETransactionVersion3_def)
  show ?thesis
  proof (cases "InvocationsSignerDetails.nonceDataAvailabilityMode d")
    case None
    with assms(1) not_v2 show ?thesis
      by (simp add: signTransaction_def includes_elem_def Let_def)
  next
    case (Some n)
    with assms(2) have "InvocationsSignerDetails.feeDataAvailabilityMode d = None" by simp
    with Some assms(1) not_v2 show ?thesis
      by (cases n) (simp_all add: signTransaction_def includes_elem_def Let_def)
  qed
qed

text \<open>The V3 details of the test without their fee mode.\<close>

theorem v3_without_mode_fails_witness:
  "signTransaction mock_library test_service test_sessionAuthorizationSignature
     test_sessionRequest []
     ((test_details ''0x3'')\<lparr>InvocationsSignerDetails.feeDataAvailabilityMode := None\<rparr>)
     False [] = (Inl (Error ''EDAM conversion''), [])"
proof -
  have v3: "InvocationsSignerDetails.version
      ((test_details ''0x3'')\<lparr>InvocationsSignerDetails.feeDataAvailabilityMode := None\<rparr>)
      \<in> set ETransactionVersion3"
    by (simp add: test_details_def ETransactionVersion3_def)
  have missing: "InvocationsSignerDetails.nonceDataAvailabilityMode
      ((test_details ''0x3'')\<lparr>InvocationsSignerDetails.feeDataAvailabilityMode := None\<rparr>) = None \<or>
    InvocationsSignerDetails.feeDataAvailabilityMode
      ((test_details ''0x3'')\<lparr>InvocationsSignerDetails.feeDataAvailabilityMode := None\<rparr>) = None"
    by simp
  from v3_without_mode_fails [OF v3 missing] show ?thesis .
qed

text \<open>
  X4. The signer that \<^verbatim>\<open>getAccountWithSessionSigner\<close> builds signs a transaction by
  \<^verbatim>\<open>signTransaction\<close> of the service, with the session request, the authorization signature and
  the cache flag it was built with.
\<close>

theorem session_signer_signs_with_the_service:
  "SessionSigner_signTransaction (getAccountWithSessionSigner lib this req sas c) cs d =
     signTransaction lib this sas req cs d c"
  by (simp add: SessionSigner_signTransaction_def getAccountWithSessionSigner_def)

text \<open>
  X5. \<^verbatim>\<open>compileSessionSignature\<close> calls the backend once, with the calls, the signer details,
  the typed data of the session, the session signature and the cache flag: whatever it returns,
  the state it leaves is the state that one call leaves.
\<close>

theorem backend_is_asked_once:
  "snd (compileSessionSignature lib this sas req txh cs acct d c w) =
   snd (argentBackend this
      (cs, d, getSessionTypedData req (DappService.chainId this),
       signTxAndSession lib this txh acct (getSessionTypedData req (DappService.chainId this)) c,
       c) w)"
  by (simp add: compileSessionSignature_def Let_def split: prod.splits sum.splits)


end
